(* ===== verification/Prelude.thy ===== *)
theory Prelude
  imports Main
begin

text \<open>
  The Python runtime the script relies on, in the form the component theories use: the
  values a message dictionary holds (\<open>pyval\<close>, with Python's truthiness), the exceptions
  the script can raise and their \<open>str()\<close>, exceptions as the left side of a sum with a
  bind that stops at the first one, and the fallible primitives the script calls
  (\<open>d[k]\<close> on a dictionary, \<open>xs[0]\<close> and \<open>xs[-1]\<close> on a list, a comprehension whose
  element expression may raise). Nothing here models a line of \<open>src/main.py\<close>; it is the
  language the script is written in. The shared lemmas are collected in
  \<open>py_simps\<close>, which the component proofs add to the simplifier.
\<close>

named_theorems py_simps "evaluation rules of the Python runtime model"
named_theorems model_defs "definitions of the script model unfolded by its proofs"

section \<open>Values and exceptions\<close>

text \<open>A string-or-None value, as stored under the key \<open>"content"\<close> of a message.\<close>

datatype pyval = PyNone | PyStr string

text \<open>\<open>if content:\<close> in Python: \<open>None\<close> and the empty string are false.\<close>

fun truthy :: "pyval \<Rightarrow> bool" where
  "truthy PyNone = False"
| "truthy (PyStr s) = (s \<noteq> [])"

text \<open>
  The exceptions the script can meet: a missing dictionary key, an index out of range, an
  unbound name, a missing attribute (class name and attribute), and whatever a vendor
  library raises, known only by its message. \<open>DecodeError\<close> is not raised by the
  script: it is the spec's error for a response without the expected field (section
  4.3), which the spec's adapter uses.
\<close>

datatype exc =
    KeyError string
  | IndexError
  | NameError string
  | AttributeError string string
  | VendorError string
  | DecodeError string

text \<open>\<open>str(e)\<close>, as an f-string \<open>{e}\<close> renders it; \<open>squote\<close> is the ASCII quote \<open>'\<close>.\<close>

definition squote :: char where
  "squote = CHR 0x27"

definition quoted :: "string \<Rightarrow> string" where
  "quoted s = [squote] @ s @ [squote]"

fun exc_str :: "exc \<Rightarrow> string" where
  "exc_str (KeyError k) = quoted k"
| "exc_str IndexError = ''list index out of range''"
| "exc_str (NameError n) = ''name '' @ quoted n @ '' is not defined''"
| "exc_str (AttributeError c a) = quoted c @ '' object has no attribute '' @ quoted a"
| "exc_str (VendorError m) = m"
| "exc_str (DecodeError f) = ''missing field '' @ quoted f"

section \<open>Raising and sequencing\<close>

type_synonym 'a result = "exc + 'a"

definition bindE :: "'a result \<Rightarrow> ('a \<Rightarrow> 'b result) \<Rightarrow> 'b result" where
  "bindE m f = (case m of Inl e \<Rightarrow> Inl e | Inr x \<Rightarrow> f x)"

lemma bindE_Inl [simp, py_simps]: "bindE (Inl e) f = Inl e"
  by (simp add: bindE_def)

lemma bindE_Inr [simp, py_simps]: "bindE (Inr x) f = f x"
  by (simp add: bindE_def)

lemma bindE_eq_Inr_iff [py_simps]:
  "bindE m f = Inr y \<longleftrightarrow> (\<exists>x. m = Inr x \<and> f x = Inr y)"
  by (cases m) simp_all

text \<open>\<open>d[k]\<close> on a dictionary written as an association list (insertion order kept).\<close>

definition py_getitem :: "(string \<times> 'v) list \<Rightarrow> string \<Rightarrow> 'v result" where
  "py_getitem d k = (case map_of d k of None \<Rightarrow> Inl (KeyError k) | Some v \<Rightarrow> Inr v)"

text \<open>\<open>xs[0]\<close> and \<open>xs[-1]\<close>: IndexError on an empty list.\<close>

definition py_first :: "'a list \<Rightarrow> 'a result" where
  "py_first xs = (case xs of [] \<Rightarrow> Inl IndexError | x # _ \<Rightarrow> Inr x)"

definition py_last :: "'a list \<Rightarrow> 'a result" where
  "py_last xs = (if xs = [] then Inl IndexError else Inr (last xs))"

lemma py_first_simps [simp, py_simps]:
  "py_first [] = Inl IndexError" "py_first (x # xs) = Inr x"
  by (simp_all add: py_first_def)

lemma py_last_simps [simp, py_simps]:
  "py_last [] = Inl IndexError" "py_last (xs @ [x]) = Inr x"
  by (simp_all add: py_last_def)

text \<open>
  A list comprehension \<open>[f(x) for x in xs]\<close> whose element expression may raise: the
  elements are computed left to right and the first exception escapes.
\<close>

fun py_map :: "('a \<Rightarrow> 'b result) \<Rightarrow> 'a list \<Rightarrow> 'b list result" where
  "py_map f [] = Inr []"
| "py_map f (x # xs) = bindE (f x) (\<lambda>y. bindE (py_map f xs) (\<lambda>ys. Inr (y # ys)))"

lemma py_map_Inr [py_simps]:
  "(\<And>x. x \<in> set xs \<Longrightarrow> f x = Inr (g x)) \<Longrightarrow> py_map f xs = Inr (map g xs)"
  by (induction xs) simp_all

lemma py_map_total:
  "(\<And>x. x \<in> set xs \<Longrightarrow> \<exists>y. f x = Inr y) \<Longrightarrow> \<exists>ys. py_map f xs = Inr ys"
proof (induction xs)
  case Nil
  then show ?case by simp
next
  case (Cons a xs)
  then obtain y ys where "f a = Inr y" "py_map f xs = Inr ys" by (meson list.set_intros)
  then show ?case by simp
qed

lemma py_map_length:
  "py_map f xs = Inr ys \<Longrightarrow> length ys = length xs"
  by (induction xs arbitrary: ys) (auto simp: bindE_eq_Inr_iff)

section \<open>Lists\<close>

text \<open>
  Two facts the conversation proofs share: a snoc never matches \<open>[]\<close>, and \<open>xs[:-1]\<close>
  of a snoc is the prefix (Python's slice of an empty list is empty, as \<open>butlast []\<close>).
\<close>

lemma snoc_neq_Nil [py_simps]: "xs @ [x] \<noteq> []"
  by simp

lemma butlast_append_pair [py_simps]: "butlast (xs @ [a, b]) = xs @ [a]"
  by (simp add: butlast_append)

end
