(* ===== verification/Registry.thy ===== *)
theory Registry
  imports Prelude
begin

text \<open>
  The provider registry of \<open>src/main.py\<close> (lines 28--37): the dictionary \<open>providers\<close>
  from display names to provider ids, the select box that offers its keys in insertion
  order, and the lookup \<open>providers[selected_provider_name]\<close>. The dictionary is an
  association list, so the order of \<open>list(providers.keys())\<close> is the order of the
  source; the lookup raises KeyError on a name that is not a key. The registry's facts:
  the ids are distinct, every offered name resolves to a registered id, and the
  registered ids are exactly the five the adapter dispatches on.
\<close>

definition gemini :: string where "gemini = ''gemini''"
definition openai :: string where "openai = ''openai''"
definition groq :: string where "groq = ''groq''"
definition anthropic :: string where "anthropic = ''anthropic''"
definition cohere :: string where "cohere = ''cohere''"

lemmas provider_id_defs [model_defs] = gemini_def openai_def groq_def anthropic_def cohere_def

definition providers :: "(string \<times> string) list" where
  "providers =
     [(''Google Gemini'', gemini),
      (''OpenAI'', openai),
      (''Groq'', groq),
      (''Anthropic (Claude)'', anthropic),
      (''Cohere'', cohere)]"

text \<open>The options of the select box: \<open>list(providers.keys())\<close>.\<close>

definition provider_names :: "string list" where
  "provider_names = map fst providers"

text \<open>\<open>selected_provider = providers[selected_provider_name]\<close>.\<close>

definition select_provider :: "string \<Rightarrow> string result" where
  "select_provider name = py_getitem providers name"

text \<open>A provider id that the registry can produce.\<close>

definition registered :: "string \<Rightarrow> bool" where
  "registered p \<longleftrightarrow> p \<in> set (map snd providers)"

lemma registered_iff [py_simps]:
  "registered p \<longleftrightarrow> p = gemini \<or> p = openai \<or> p = groq \<or> p = anthropic \<or> p = cohere"
  by (auto simp: registered_def providers_def)

lemma provider_ids_distinct [simp]:
  "gemini \<noteq> openai" "gemini \<noteq> groq" "gemini \<noteq> anthropic" "gemini \<noteq> cohere"
  "openai \<noteq> groq" "openai \<noteq> anthropic" "openai \<noteq> cohere"
  "groq \<noteq> anthropic" "groq \<noteq> cohere" "anthropic \<noteq> cohere"
  by (simp_all add: provider_id_defs)

lemmas provider_ids_distinct_sym [simp] = provider_ids_distinct [THEN not_sym]

lemma select_provider_Inr_registered:
  "select_provider name = Inr p \<Longrightarrow> registered p"
  by (auto simp: select_provider_def py_getitem_def registered_def
      dest: map_of_SomeD intro: rev_image_eqI split: option.splits)

lemma select_provider_offered:
  "(\<exists>p. select_provider name = Inr p) \<longleftrightarrow> name \<in> set provider_names"
proof -
  have "(\<exists>p. select_provider name = Inr p) \<longleftrightarrow> name \<in> dom (map_of providers)"
    by (auto simp: select_provider_def py_getitem_def split: option.splits)
  then show ?thesis by (simp add: dom_map_of_conv_image_fst provider_names_def)
qed

lemma select_provider_Inl:
  "select_provider name = Inl e \<Longrightarrow> e = KeyError name \<and> name \<notin> set provider_names"
  by (auto simp: select_provider_def py_getitem_def provider_names_def map_of_eq_None_iff
      split: option.splits)

end
