(* ===== verification/Messages.thy ===== *)
theory Messages
  imports Registry
begin

text \<open>
  The conversation store of \<open>src/main.py\<close>: the list \<open>st.session_state.messages\<close> of
  message dictionaries, the two shapes of user message the script builds (lines
  124--128: \<open>{"role": "user", "parts": [prompt]}\<close> for Gemini, \<open>{"role": "user",
  "content": prompt}\<close> otherwise) and the assistant message (lines 141--149). A message
  dictionary is a record whose optional fields are the keys it may lack; reading a
  missing key is the KeyError of \<open>m["content"]\<close>.

  The spec's canonical conversation is a list of \<open>turn\<close>s (speaker and text); \<open>abs_msg\<close>
  reads a stored message as a turn, the way the display loop reads it. \<open>wf_msg p\<close> is
  the shape of a message with text under provider \<open>p\<close>; \<open>stored_msg p\<close> also admits the
  assistant message whose content is \<open>None\<close>, which an OpenAI or Groq reply without
  text leaves. \<open>alternating\<close> says the list is a sequence of user/assistant pairs,
  the shape a run of complete chat turns appends; \<open>user_led\<close> says it is a sequence of
  user messages each followed by at most one assistant message, the conceptual
  alternation of the spec (section 3) that a turn stopped before its reply leaves;
  \<open>wf_conv\<close> is that and the message shapes, the invariant the session keeps (theory
  Session).
\<close>

record msg =
  msg_role :: string
  msg_content :: "pyval option"
  msg_parts :: "string list option"

text \<open>\<open>m["content"]\<close> and \<open>m["parts"]\<close>.\<close>

definition get_content :: "msg \<Rightarrow> pyval result" where
  "get_content m = (case msg_content m of None \<Rightarrow> Inl (KeyError ''content'') | Some c \<Rightarrow> Inr c)"

definition get_parts :: "msg \<Rightarrow> string list result" where
  "get_parts m = (case msg_parts m of None \<Rightarrow> Inl (KeyError ''parts'') | Some ps \<Rightarrow> Inr ps)"

text \<open>Lines 124--128: the user message, shaped by the active provider.\<close>

definition user_message :: "string \<Rightarrow> string \<Rightarrow> msg" where
  "user_message provider prompt =
     (if provider = gemini
      then \<lparr>msg_role = ''user'', msg_content = None, msg_parts = Some [prompt]\<rparr>
      else \<lparr>msg_role = ''user'', msg_content = Some (PyStr prompt), msg_parts = None\<rparr>)"

text \<open>Lines 141--149: both branches append \<open>{"role": "assistant", "content": response}\<close>.\<close>

definition assistant_message :: "pyval \<Rightarrow> msg" where
  "assistant_message response =
     \<lparr>msg_role = ''assistant'', msg_content = Some response, msg_parts = None\<rparr>"

lemmas msg_defs [model_defs] = user_message_def assistant_message_def

lemma get_user_message [py_simps]:
  "get_content (user_message p s) = (if p = gemini then Inl (KeyError ''content'') else Inr (PyStr s))"
  "get_parts (user_message p s) = (if p = gemini then Inr [s] else Inl (KeyError ''parts''))"
  "msg_role (user_message p s) = ''user''"
  by (simp_all add: user_message_def get_content_def get_parts_def)

lemma get_assistant_message [py_simps]:
  "get_content (assistant_message r) = Inr r"
  "get_parts (assistant_message r) = Inl (KeyError ''parts'')"
  "msg_role (assistant_message r) = ''assistant''"
  by (simp_all add: assistant_message_def get_content_def get_parts_def)

section \<open>The canonical conversation\<close>

datatype speaker = USER | ASSISTANT

datatype turn = Turn (turn_speaker: speaker) (turn_text: string)

text \<open>The text a stored message carries: \<open>parts[0]\<close> where there are parts, else the content.\<close>

definition msg_text :: "msg \<Rightarrow> string" where
  "msg_text m =
     (case msg_parts m of
        Some (s # _) \<Rightarrow> s
      | _ \<Rightarrow> (case msg_content m of Some (PyStr s) \<Rightarrow> s | _ \<Rightarrow> []))"

definition abs_msg :: "msg \<Rightarrow> turn" where
  "abs_msg m = Turn (if msg_role m = ''user'' then USER else ASSISTANT) (msg_text m)"

lemma msg_text_user_message [simp]: "msg_text (user_message p s) = s"
  by (simp add: msg_text_def user_message_def)

lemma msg_text_assistant_message [simp]: "msg_text (assistant_message (PyStr s)) = s"
  by (simp add: msg_text_def assistant_message_def)

lemma turn_text_abs_msg [simp]: "turn_text (abs_msg m) = msg_text m"
  by (simp add: abs_msg_def)

lemma abs_user_message [simp]: "abs_msg (user_message p s) = Turn USER s"
  by (simp add: abs_msg_def msg_text_def user_message_def)

lemma abs_assistant_message [simp]:
  "abs_msg (assistant_message (PyStr s)) = Turn ASSISTANT s"
  by (simp add: abs_msg_def msg_text_def assistant_message_def)

lemma abs_assistant_text:
  "abs_msg (assistant_message x) = Turn ASSISTANT (msg_text (assistant_message x))"
  by (simp add: abs_msg_def assistant_message_def)

lemma abs_assistant_None [simp]: "abs_msg (assistant_message PyNone) = Turn ASSISTANT []"
  by (simp add: abs_msg_def msg_text_def assistant_message_def)

section \<open>Well-formed conversations\<close>

definition has_str_content :: "msg \<Rightarrow> bool" where
  "has_str_content m = (case msg_content m of Some (PyStr _) \<Rightarrow> True | _ \<Rightarrow> False)"

definition has_one_part :: "msg \<Rightarrow> bool" where
  "has_one_part m = (case msg_parts m of Some [_] \<Rightarrow> True | _ \<Rightarrow> False)"

text \<open>The shape of a message stored while provider \<open>p\<close> is active.\<close>

definition wf_msg :: "string \<Rightarrow> msg \<Rightarrow> bool" where
  "wf_msg p m =
     ((msg_role m = ''user'' \<and>
       (if p = gemini then msg_content m = None \<and> has_one_part m
        else msg_parts m = None \<and> has_str_content m))
      \<or> (msg_role m = ''assistant'' \<and> msg_parts m = None \<and> has_str_content m))"

text \<open>
  What the session stores while provider \<open>p\<close> is active: a well-formed message, or an
  assistant message whose content is \<open>None\<close> (an OpenAI or Groq reply without text).
\<close>

definition stored_msg :: "string \<Rightarrow> msg \<Rightarrow> bool" where
  "stored_msg p m \<longleftrightarrow>
     wf_msg p m \<or> (msg_role m = ''assistant'' \<and> msg_parts m = None \<and> msg_content m = Some PyNone)"

fun alternating :: "msg list \<Rightarrow> bool" where
  "alternating [] = True"
| "alternating [m] = False"
| "alternating (m1 # m2 # ms) =
     (msg_role m1 = ''user'' \<and> msg_role m2 = ''assistant'' \<and> alternating ms)"

fun user_led :: "msg list \<Rightarrow> bool" where
  "user_led [] = True"
| "user_led [m] = (msg_role m = ''user'')"
| "user_led (m1 # m2 # ms) =
     (msg_role m1 = ''user'' \<and>
      (if msg_role m2 = ''assistant'' then user_led ms else user_led (m2 # ms)))"

definition wf_conv :: "string \<Rightarrow> msg list \<Rightarrow> bool" where
  "wf_conv p ms \<longleftrightarrow> user_led ms \<and> list_all (stored_msg p) ms"

lemma wf_user_message [simp]: "wf_msg p (user_message p s)"
  by (simp add: wf_msg_def user_message_def has_one_part_def has_str_content_def)

lemma wf_assistant_message [simp]: "wf_msg p (assistant_message (PyStr s))"
  by (simp add: wf_msg_def assistant_message_def has_str_content_def)

lemma wf_stored [intro]: "wf_msg p m \<Longrightarrow> stored_msg p m"
  by (simp add: stored_msg_def)

lemma wf_list_stored: "list_all (wf_msg p) ms \<Longrightarrow> list_all (stored_msg p) ms"
  by (auto simp: list_all_iff)

lemma stored_user_message [simp]: "stored_msg p (user_message p s)"
  by (simp add: stored_msg_def)

lemma stored_assistant_message [simp]: "stored_msg p (assistant_message r)"
  by (cases r) (simp_all add: stored_msg_def assistant_message_def wf_msg_def has_str_content_def)

lemma alternating_append_pair [simp]:
  "alternating ms \<Longrightarrow>
   alternating (ms @ [a, b]) \<longleftrightarrow> msg_role a = ''user'' \<and> msg_role b = ''assistant''"
  by (induction ms rule: alternating.induct) simp_all

lemma alternating_even: "alternating ms \<Longrightarrow> even (length ms)"
  by (induction ms rule: alternating.induct) simp_all

lemma wf_conv_Nil [simp]: "wf_conv p []"
  by (simp add: wf_conv_def)

lemma alternating_user_led: "alternating ms \<Longrightarrow> user_led ms"
  by (induction ms rule: alternating.induct) simp_all

lemma user_led_append_user:
  "user_led ms \<Longrightarrow> msg_role u = ''user'' \<Longrightarrow> user_led (ms @ [u])"
  by (induction ms rule: user_led.induct) (simp_all split: if_splits)

lemma user_led_append_turn:
  "user_led ms \<Longrightarrow> msg_role u = ''user'' \<Longrightarrow> msg_role a = ''assistant'' \<Longrightarrow>
   user_led (ms @ [u, a])"
  by (induction ms rule: user_led.induct) (simp_all split: if_splits)

lemma wf_conv_append_turn:
  "wf_conv p ms \<Longrightarrow> wf_conv p (ms @ [user_message p u, assistant_message r])"
  by (simp add: wf_conv_def py_simps user_led_append_turn)

lemma wf_conv_append_user:
  "wf_conv p ms \<Longrightarrow> wf_conv p (ms @ [user_message p u])"
  by (simp add: wf_conv_def py_simps user_led_append_user)

text \<open>
  Reading a well-formed message: its text is the one its constructor stored, and the
  key the adapter reads is present.
\<close>

lemma wf_msg_content:
  "wf_msg p m \<Longrightarrow> p \<noteq> gemini \<or> msg_role m \<noteq> ''user'' \<Longrightarrow>
   get_content m = Inr (PyStr (msg_text m))"
  by (auto simp: wf_msg_def get_content_def msg_text_def has_str_content_def
      split: option.splits pyval.splits if_splits)

lemma wf_msg_parts:
  "wf_msg gemini m \<Longrightarrow> msg_role m = ''user'' \<Longrightarrow> get_parts m = Inr [msg_text m]"
  by (auto simp: wf_msg_def get_parts_def msg_text_def has_one_part_def
      split: option.splits list.splits)

lemma wf_msg_role:
  "wf_msg p m \<Longrightarrow> msg_role m = ''user'' \<or> msg_role m = ''assistant''"
  by (auto simp: wf_msg_def)

lemma wf_msg_speaker:
  "wf_msg p m \<Longrightarrow> (turn_speaker (abs_msg m) = USER) = (msg_role m = ''user'')"
  by (auto simp: wf_msg_def abs_msg_def)

lemma stored_msg_content:
  "stored_msg p m \<Longrightarrow> p \<noteq> gemini \<or> msg_role m \<noteq> ''user'' \<Longrightarrow> \<exists>c. get_content m = Inr c"
  by (auto simp: stored_msg_def get_content_def dest: wf_msg_content)

lemma stored_msg_role:
  "stored_msg p m \<Longrightarrow> msg_role m = ''user'' \<or> msg_role m = ''assistant''"
  by (auto simp: stored_msg_def wf_msg_def)

lemma stored_msg_speaker:
  "stored_msg p m \<Longrightarrow> (turn_speaker (abs_msg m) = USER) = (msg_role m = ''user'')"
  by (auto simp: stored_msg_def wf_msg_def abs_msg_def)

text \<open>A stored message that is not well formed is a \<open>None\<close> reply: no text, content \<open>None\<close>.\<close>

lemma stored_not_wf:
  "stored_msg p m \<Longrightarrow> \<not> wf_msg p m \<Longrightarrow>
   msg_role m = ''assistant'' \<and> get_content m = Inr PyNone \<and> msg_text m = []"
  by (auto simp: stored_msg_def get_content_def msg_text_def)

end
