(* ===== verification/Adapter.thy ===== *)
theory Adapter
  imports Messages
begin

text \<open>
  The provider adapter of \<open>src/main.py\<close>: client construction (lines 95--106) and
  \<open>get_model_response\<close> (lines 62--90). The vendor libraries are the external
  collaborator: a \<open>vendor\<close> record gives what constructing a client may raise and what a
  call returns for a request (a response or an exception). A request is one constructor
  per library call of the source, with its arguments; a response is one constructor per
  library result type, and the accessors the source applies to it (\<open>.text\<close>,
  \<open>.choices[0].message.content\<close>, \<open>.content[0].text\<close>) raise AttributeError on the wrong
  type and IndexError on an empty list. Every request builder reads the message
  dictionaries with the fallible accessors of theory Messages, so a malformed history
  is a KeyError inside the \<open>try\<close> of line 63, as in Python.
\<close>

section \<open>Vendor interface\<close>

text \<open>A constructed client: the library constructor that built it and the key it holds.\<close>

datatype client = Client string string

datatype request =
    GenerateContent string "string list"
    \<comment> \<open>\<open>client.GenerativeModel(model).generate_content(parts)\<close>\<close>
  | ChatCompletionsCreate "(string \<times> pyval) list" string
    \<comment> \<open>\<open>client.chat.completions.create(messages=..., model=...)\<close>\<close>
  | MessagesCreate string nat "(string \<times> pyval) list"
    \<comment> \<open>\<open>client.messages.create(model=..., max_tokens=..., messages=...)\<close>\<close>
  | CohereChat pyval "(string \<times> pyval) list" string
    \<comment> \<open>\<open>client.chat(message=..., chat_history=..., model=...)\<close>\<close>

datatype response =
    GenerateContentResponse string
  | ChatCompletion "pyval list"        \<comment> \<open>the \<open>message.content\<close> of each choice, \<open>Optional[str]\<close>\<close>
  | Message "string list"              \<comment> \<open>the \<open>text\<close> of each content block\<close>
  | NonStreamedChatResponse string

fun response_class :: "response \<Rightarrow> string" where
  "response_class (GenerateContentResponse _) = ''GenerateContentResponse''"
| "response_class (ChatCompletion _) = ''ChatCompletion''"
| "response_class (Message _) = ''Message''"
| "response_class (NonStreamedChatResponse _) = ''NonStreamedChatResponse''"

record vendor =
  construct :: "string \<Rightarrow> string \<Rightarrow> exc option"
  call :: "client \<Rightarrow> request \<Rightarrow> response result"

section \<open>Client construction (lines 95--106)\<close>

definition make_client :: "vendor \<Rightarrow> string \<Rightarrow> string \<Rightarrow> client option result" where
  "make_client v lib key =
     (case construct v lib key of Some e \<Rightarrow> Inl e | None \<Rightarrow> Inr (Some (Client lib key)))"

text \<open>
  \<open>Inr None\<close> is the fall-through of the \<open>if\<close>/\<open>elif\<close> chain: \<open>client\<close> stays unbound.
\<close>

definition init_client :: "vendor \<Rightarrow> string \<Rightarrow> string \<Rightarrow> client option result" where
  "init_client v provider key =
     (if provider = gemini then make_client v ''genai'' key
      else if provider = openai then make_client v ''OpenAI'' key
      else if provider = groq then make_client v ''Groq'' key
      else if provider = anthropic then make_client v ''Anthropic'' key
      else if provider = cohere then make_client v ''CohereClient'' key
      else Inr None)"

section \<open>Requests (lines 64--87)\<close>

text \<open>\<open>{"role": m["role"], "content": m["content"]}\<close> (lines 72 and 80).\<close>

definition role_content :: "msg \<Rightarrow> (string \<times> pyval) result" where
  "role_content m = bindE (get_content m) (\<lambda>c. Inr (msg_role m, c))"

text \<open>\<open>{"role": "USER" if msg["role"] == "user" else "CHATBOT", "message": msg["content"]}\<close>.\<close>

definition cohere_entry :: "msg \<Rightarrow> (string \<times> pyval) result" where
  "cohere_entry m =
     bindE (get_content m)
       (\<lambda>c. Inr (if msg_role m = ''user'' then ''USER'' else ''CHATBOT'', c))"

text \<open>Lines 66--67: only \<open>messages[-1]['parts']\<close> is sent.\<close>

definition gemini_request :: "msg list \<Rightarrow> request result" where
  "gemini_request messages =
     bindE (py_last messages)
       (\<lambda>m. bindE (get_parts m) (\<lambda>ps. Inr (GenerateContent ''gemini-2.0-flash-lite'' ps)))"

text \<open>Lines 71--74; the model depends on the provider.\<close>

definition completions_request :: "string \<Rightarrow> msg list \<Rightarrow> request result" where
  "completions_request provider msgs =
     bindE (py_map role_content msgs)
       (\<lambda>ms. Inr (ChatCompletionsCreate ms
                   (if provider = openai then ''openai/gpt-oss-20b'' else ''llama3-8b-8192'')))"

text \<open>Lines 77--81.\<close>

definition anthropic_request :: "msg list \<Rightarrow> request result" where
  "anthropic_request msgs =
     bindE (py_map role_content msgs)
       (\<lambda>ms. Inr (MessagesCreate ''claude-3-5-sonnet-20240620'' 1024 ms))"

text \<open>Lines 85--87: the history is \<open>messages[:-1]\<close>, the prompt \<open>messages[-1]["content"]\<close>.\<close>

definition cohere_request :: "msg list \<Rightarrow> request result" where
  "cohere_request msgs =
     bindE (py_map cohere_entry (butlast msgs))
       (\<lambda>h. bindE (py_last msgs)
         (\<lambda>m. bindE (get_content m) (\<lambda>prompt. Inr (CohereChat prompt h ''command-a-03-2025''))))"

section \<open>Responses\<close>

text \<open>\<open>response.text\<close> (lines 68 and 88).\<close>

fun response_text :: "response \<Rightarrow> pyval result" where
  "response_text (GenerateContentResponse t) = Inr (PyStr t)"
| "response_text (NonStreamedChatResponse t) = Inr (PyStr t)"
| "response_text r = Inl (AttributeError (response_class r) ''text'')"

text \<open>\<open>chat_completion.choices[0].message.content\<close> (line 75).\<close>

fun first_choice_content :: "response \<Rightarrow> pyval result" where
  "first_choice_content (ChatCompletion cs) = py_first cs"
| "first_choice_content r = Inl (AttributeError (response_class r) ''choices'')"

text \<open>\<open>response.content[0].text\<close> (line 82).\<close>

fun first_block_text :: "response \<Rightarrow> pyval result" where
  "first_block_text (Message bs) = bindE (py_first bs) (\<lambda>t. Inr (PyStr t))"
| "first_block_text r = Inl (AttributeError (response_class r) ''content'')"

section \<open>get_model_response (lines 62--90)\<close>

text \<open>
  \<open>messages\<close> is the parameter, \<open>ss_msgs\<close> is \<open>st.session_state.messages\<close>, which the
  OpenAI, Groq, Anthropic and Cohere branches read instead of the parameter. Every
  exception of the \<open>try\<close> becomes the reply \<open>"An error occurred: {e}"\<close>; a provider no
  branch matches returns \<open>None\<close>.
\<close>

definition error_reply :: "exc \<Rightarrow> string" where
  "error_reply e = ''An error occurred: '' @ exc_str e"

definition get_model_response ::
  "vendor \<Rightarrow> client \<Rightarrow> string \<Rightarrow> msg list \<Rightarrow> msg list \<Rightarrow> pyval" where
  "get_model_response v client provider messages ss_msgs =
     (let r =
        (if provider = gemini then
           bindE (gemini_request messages) (\<lambda>req. bindE (call v client req) response_text)
         else if provider \<in> set [openai, groq] then
           bindE (completions_request provider ss_msgs)
             (\<lambda>req. bindE (call v client req) first_choice_content)
         else if provider = anthropic then
           bindE (anthropic_request ss_msgs) (\<lambda>req. bindE (call v client req) first_block_text)
         else if provider = cohere then
           bindE (cohere_request ss_msgs) (\<lambda>req. bindE (call v client req) response_text)
         else Inr PyNone)
      in case r of Inl e \<Rightarrow> PyStr (error_reply e) | Inr x \<Rightarrow> x)"

lemmas adapter_defs [model_defs] = init_client_def make_client_def gemini_request_def
  completions_request_def anthropic_request_def cohere_request_def role_content_def
  cohere_entry_def

section \<open>The specification of an adapter (spec section 4.3)\<close>

text \<open>
  The spec's adapter works on the canonical conversation: \<open>encode\<close> builds the vendor
  request from the turns (Gemini: the last USER turn's text only; OpenAI and Groq: every
  turn as a role/content pair; Anthropic: the same with a budget of 1024 tokens; Cohere:
  every turn but the last as history with roles USER/CHATBOT, the last turn's text as
  the message), \<open>decode\<close> extracts the reply, and a failure of either becomes the error
  reply.
\<close>

fun role_name :: "speaker \<Rightarrow> string" where
  "role_name USER = ''user''"
| "role_name ASSISTANT = ''assistant''"

fun cohere_role :: "speaker \<Rightarrow> string" where
  "cohere_role USER = ''USER''"
| "cohere_role ASSISTANT = ''CHATBOT''"

definition last_user_text :: "turn list \<Rightarrow> string option" where
  "last_user_text ts =
     (let us = filter (\<lambda>t. turn_speaker t = USER) ts
      in if us = [] then None else Some (turn_text (last us)))"

lemma last_user_text_snoc [simp]: "last_user_text (ts @ [Turn USER u]) = Some u"
  by (simp add: last_user_text_def)

definition encode :: "string \<Rightarrow> turn list \<Rightarrow> request option" where
  "encode p ts =
     (if p = gemini then
        map_option (\<lambda>s. GenerateContent ''gemini-2.0-flash-lite'' [s]) (last_user_text ts)
      else if p = openai \<or> p = groq then
        Some (ChatCompletionsCreate (map (\<lambda>t. (role_name (turn_speaker t), PyStr (turn_text t))) ts)
                (if p = openai then ''openai/gpt-oss-20b'' else ''llama3-8b-8192''))
      else if p = anthropic then
        Some (MessagesCreate ''claude-3-5-sonnet-20240620'' 1024
                (map (\<lambda>t. (role_name (turn_speaker t), PyStr (turn_text t))) ts))
      else if p = cohere \<and> ts \<noteq> [] then
        Some (CohereChat (PyStr (turn_text (last ts)))
                (map (\<lambda>t. (cohere_role (turn_speaker t), PyStr (turn_text t))) (butlast ts))
                ''command-a-03-2025'')
      else None)"

text \<open>
  The spec's decoder of a completion: the first choice's content, a DecodeError where
  the content is absent (\<open>None\<close>).
\<close>

fun spec_first_content :: "response \<Rightarrow> pyval result" where
  "spec_first_content (ChatCompletion cs) =
     bindE (py_first cs) (\<lambda>x. case x of PyNone \<Rightarrow> Inl (DecodeError ''content'') | PyStr s \<Rightarrow> Inr (PyStr s))"
| "spec_first_content r = first_choice_content r"

definition decode :: "string \<Rightarrow> response \<Rightarrow> pyval result" where
  "decode p =
     (if p = gemini \<or> p = cohere then response_text
      else if p = anthropic then first_block_text else spec_first_content)"

definition spec_reply :: "(request \<Rightarrow> response result) \<Rightarrow> string \<Rightarrow> turn list \<Rightarrow> pyval" where
  "spec_reply invoke p ts =
     (case encode p ts of
        None \<Rightarrow> PyNone
      | Some req \<Rightarrow> (case bindE (invoke req) (decode p) of
                      Inl e \<Rightarrow> PyStr (error_reply e) | Inr x \<Rightarrow> x))"

section \<open>Properties of the adapter\<close>

text \<open>The request a registered provider's branch builds, and the decoder it applies.\<close>

definition adapter_request :: "string \<Rightarrow> msg list \<Rightarrow> msg list \<Rightarrow> request result" where
  "adapter_request p messages ss_msgs =
     (if p = gemini then gemini_request messages
      else if p = anthropic then anthropic_request ss_msgs
      else if p = cohere then cohere_request ss_msgs
      else completions_request p ss_msgs)"

definition code_decode :: "string \<Rightarrow> response \<Rightarrow> pyval result" where
  "code_decode p =
     (if p = gemini \<or> p = cohere then response_text
      else if p = anthropic then first_block_text else first_choice_content)"

lemma get_model_response_registered:
  "registered p \<Longrightarrow>
   get_model_response v c p ms ss =
     (case bindE (adapter_request p ms ss) (\<lambda>req. bindE (call v c req) (code_decode p)) of
        Inl e \<Rightarrow> PyStr (error_reply e) | Inr x \<Rightarrow> x)"
  unfolding registered_iff
  by (elim disjE) (simp_all add: get_model_response_def adapter_request_def code_decode_def)

text \<open>A completion whose first choice has no content: the one place the decoders differ.\<close>

fun none_content :: "response \<Rightarrow> bool" where
  "none_content (ChatCompletion (PyNone # _)) = True"
| "none_content _ = False"

lemma code_decode_eq_decode:
  "\<not> none_content r \<Longrightarrow> code_decode p r = decode p r"
  by (cases r rule: none_content.cases) (simp_all add: code_decode_def decode_def)

lemma code_decode_not_None:
  "code_decode p r = Inr PyNone \<Longrightarrow> none_content r \<and> p \<noteq> gemini \<and> p \<noteq> anthropic \<and> p \<noteq> cohere"
  by (cases r rule: none_content.cases)
    (auto simp: code_decode_def bindE_eq_Inr_iff py_first_def split: if_splits list.splits)

lemma reply_None_iff:
  "(case m of Inl e \<Rightarrow> PyStr (error_reply e) | Inr x \<Rightarrow> x) = PyNone \<longleftrightarrow> m = Inr PyNone"
  by (cases m) auto

lemma code_decode_none:
  "none_content r \<Longrightarrow> p \<noteq> gemini \<Longrightarrow> p \<noteq> anthropic \<Longrightarrow> p \<noteq> cohere \<Longrightarrow>
   code_decode p r = Inr PyNone \<and> decode p r = Inl (DecodeError ''content'')"
  by (cases r rule: none_content.cases) (simp_all add: code_decode_def decode_def)

lemma get_model_response_unregistered:
  "\<not> registered p \<Longrightarrow> get_model_response v c p ms ss = PyNone"
  by (simp add: get_model_response_def registered_iff)

lemma decode_PyStr: "decode p r = Inr x \<Longrightarrow> \<exists>s. x = PyStr s"
  by (cases r) (auto simp: decode_def py_first_def bindE_eq_Inr_iff
      split: list.splits if_splits pyval.splits)

lemma reply_PyStr:
  "\<exists>s. (case bindE m (\<lambda>req. bindE (f req) (decode p)) of
          Inl e \<Rightarrow> PyStr (error_reply e) | Inr x \<Rightarrow> x) = PyStr s"
  by (auto simp: bindE_def split: sum.splits dest: decode_PyStr)

lemma role_contents_wf:
  "p \<noteq> gemini \<Longrightarrow> list_all (wf_msg p) ms \<Longrightarrow>
   py_map role_content ms = Inr (map (\<lambda>m. (msg_role m, PyStr (msg_text m))) ms)"
  by (rule py_map_Inr) (auto simp: role_content_def list_all_iff wf_msg_content)

lemma cohere_entries_wf:
  "list_all (wf_msg cohere) ms \<Longrightarrow>
   py_map cohere_entry ms =
     Inr (map (\<lambda>m. (if msg_role m = ''user'' then ''USER'' else ''CHATBOT'', PyStr (msg_text m))) ms)"
  by (rule py_map_Inr) (auto simp: cohere_entry_def list_all_iff wf_msg_content)

lemma wf_msg_role_name:
  "wf_msg p m \<Longrightarrow> role_name (turn_speaker (abs_msg m)) = msg_role m"
  "wf_msg p m \<Longrightarrow> cohere_role (turn_speaker (abs_msg m)) =
     (if msg_role m = ''user'' then ''USER'' else ''CHATBOT'')"
  by (auto simp: wf_msg_def abs_msg_def)

lemma stored_msg_role_name:
  "stored_msg p m \<Longrightarrow> role_name (turn_speaker (abs_msg m)) = msg_role m"
  by (auto simp: stored_msg_def wf_msg_def abs_msg_def)

lemma completions_request_wf:
  "p \<noteq> gemini \<Longrightarrow> list_all (wf_msg p) ms \<Longrightarrow>
   completions_request p ms =
     Inr (ChatCompletionsCreate (map (\<lambda>m. (msg_role m, PyStr (msg_text m))) ms)
            (if p = openai then ''openai/gpt-oss-20b'' else ''llama3-8b-8192''))"
  by (simp add: completions_request_def role_contents_wf)

lemma anthropic_request_wf:
  "list_all (wf_msg anthropic) ms \<Longrightarrow>
   anthropic_request ms =
     Inr (MessagesCreate ''claude-3-5-sonnet-20240620'' 1024
            (map (\<lambda>m. (msg_role m, PyStr (msg_text m))) ms))"
  using role_contents_wf [of anthropic ms] by (simp add: anthropic_request_def)

lemma cohere_request_wf:
  assumes wf: "list_all (wf_msg cohere) ms" and ne: "ms \<noteq> []"
  shows "cohere_request ms =
     Inr (CohereChat (PyStr (msg_text (last ms)))
            (map (\<lambda>m. (if msg_role m = ''user'' then ''USER'' else ''CHATBOT'', PyStr (msg_text m)))
               (butlast ms))
            ''command-a-03-2025'')"
proof -
  from wf have "list_all (wf_msg cohere) (butlast ms)"
    by (simp add: list_all_iff in_set_butlastD)
  moreover from wf ne have "wf_msg cohere (last ms)"
    by (simp add: list_all_iff)
  then have "get_content (last ms) = Inr (PyStr (msg_text (last ms)))"
    by (simp add: wf_msg_content)
  ultimately show ?thesis
    using ne by (simp add: cohere_request_def cohere_entries_wf py_last_def)
qed

text \<open>
  The request a registered provider's branch builds from a well-formed history ending in
  the new user message is the spec's encoding of the canonical conversation.
\<close>

lemma adapter_request_encode:
  assumes reg: "registered p" and wf: "list_all (wf_msg p) ms" and ms: "ms = hist @ [user_message p u]"
  shows "adapter_request p ms ms = Inr (the (encode p (map abs_msg ms))) \<and>
         encode p (map abs_msg ms) \<noteq> None"
proof (cases "p = gemini")
  case True
  then show ?thesis
    by (simp add: ms adapter_request_def encode_def gemini_request_def py_simps)
next
  case False
  have ne: "ms \<noteq> []" by (simp add: ms)
  have pairs: "map (\<lambda>t. (role_name (turn_speaker t), PyStr (turn_text t))) (map abs_msg ms) =
      map (\<lambda>m. (msg_role m, PyStr (msg_text m))) ms"
    using wf by (auto simp: list_all_iff wf_msg_role_name)
  have "list_all (wf_msg p) (butlast ms)"
    using wf by (simp add: list_all_iff in_set_butlastD)
  then have chist:
    "map (\<lambda>t. (cohere_role (turn_speaker t), PyStr (turn_text t))) (butlast (map abs_msg ms)) =
     map (\<lambda>m. (if msg_role m = ''user'' then ''USER'' else ''CHATBOT'', PyStr (msg_text m)))
       (butlast ms)"
    by (auto simp: list_all_iff wf_msg_role_name map_butlast[symmetric])
  have lst: "turn_text (last (map abs_msg ms)) = msg_text (last ms)"
    by (simp add: ms last_map)
  show ?thesis
    using False reg wf pairs chist lst ne
    by (auto simp: adapter_request_def encode_def registered_iff
        anthropic_request_wf cohere_request_wf completions_request_wf)
qed

text \<open>Where the vendor never answers a completion without content, the decoders agree.\<close>

lemma call_decode_eq:
  "\<forall>req r. call v c req = Inr r \<longrightarrow> \<not> none_content r \<Longrightarrow>
   bindE (call v c req) (code_decode p) = bindE (call v c req) (decode p)"
  by (cases "call v c req") (simp_all add: code_decode_eq_decode)

lemma adapter_refines:
  "registered p \<Longrightarrow> list_all (wf_msg p) hist \<Longrightarrow> ms = hist @ [user_message p u] \<Longrightarrow>
   \<forall>req r. call v c req = Inr r \<longrightarrow> \<not> none_content r \<Longrightarrow>
   get_model_response v c p ms ms = spec_reply (call v c) p (map abs_msg ms)"
  using adapter_request_encode [of p ms hist u]
  by (auto simp: get_model_response_registered spec_reply_def call_decode_eq)

text \<open>
  A stored history followed by the new user message always yields a request: the
  reads of \<open>content\<close> and \<open>parts\<close> the branches make do not raise.
\<close>

lemma adapter_request_stored:
  assumes reg: "registered p" and st: "list_all (stored_msg p) hist"
  shows "\<exists>req. adapter_request p (hist @ [user_message p u]) (hist @ [user_message p u]) = Inr req"
proof -
  let ?ms = "hist @ [user_message p u]"
  have st': "list_all (stored_msg p) ?ms" using st by simp
  have rc: "p \<noteq> gemini \<Longrightarrow> \<exists>ys. py_map role_content ?ms = Inr ys"
    using st' by (intro py_map_total)
      (auto simp: role_content_def list_all_iff bindE_eq_Inr_iff py_simps dest: stored_msg_content)
  have ce: "p \<noteq> gemini \<Longrightarrow> \<exists>ys. py_map cohere_entry (butlast ?ms) = Inr ys"
    using st by (intro py_map_total)
      (auto simp: cohere_entry_def list_all_iff bindE_eq_Inr_iff dest: stored_msg_content)
  show ?thesis
    using reg rc ce
    by (auto simp: registered_iff adapter_request_def gemini_request_def completions_request_def
        anthropic_request_def cohere_request_def py_simps)
qed

lemma reply_call_fails:
  "registered p \<Longrightarrow> list_all (stored_msg p) hist \<Longrightarrow> ms = hist @ [user_message p u] \<Longrightarrow>
   (\<forall>req. call v c req = Inl e) \<Longrightarrow> get_model_response v c p ms ms = PyStr (error_reply e)"
  using adapter_request_stored [of p hist u] by (auto simp: get_model_response_registered)

text \<open>
  C23: \<open>get_model_response\<close> returns \<open>None\<close> exactly when no branch handles the provider
  id, or the provider is OpenAI or Groq and the vendor answers the request with a first
  choice whose content is \<open>None\<close>; in every other case, whatever the vendor does, it
  returns a string (a raised exception becomes the error string).
\<close>

theorem get_model_response_none_iff:
  "get_model_response v c p ms ss = PyNone \<longleftrightarrow>
     \<not> registered p \<or>
     ((p = openai \<or> p = groq) \<and>
      (\<exists>req r. completions_request p ss = Inr req \<and> call v c req = Inr r \<and> none_content r))"
proof (cases "registered p")
  case False
  then show ?thesis by (simp add: get_model_response_unregistered)
next
  case True
  have "get_model_response v c p ms ss = PyNone \<longleftrightarrow>
      (\<exists>req r. adapter_request p ms ss = Inr req \<and> call v c req = Inr r \<and> code_decode p r = Inr PyNone)"
    using True by (simp add: get_model_response_registered reply_None_iff bindE_eq_Inr_iff)
  also have "\<dots> \<longleftrightarrow> (p = openai \<or> p = groq) \<and>
      (\<exists>req r. completions_request p ss = Inr req \<and> call v c req = Inr r \<and> none_content r)"
    using True code_decode_none code_decode_not_None
    by (auto simp: registered_iff adapter_request_def)
  finally show ?thesis using True by simp
qed

theorem get_model_response_none_iff_witness:
  "let v = \<lparr>construct = (\<lambda>_ _. None), call = (\<lambda>_ _. Inr (ChatCompletion [PyNone]))\<rparr>;
       c = Client ''OpenAI'' ''sk''; ms = [user_message openai ''q'']
   in get_model_response v c openai ms ms = PyNone \<and>
      (\<not> registered openai \<or>
       ((openai = openai \<or> openai = groq) \<and>
        (\<exists>req r. completions_request openai ms = Inr req \<and> call v c req = Inr r \<and> none_content r)))"
proof -
  let ?v = "\<lparr>construct = (\<lambda>_ _. None), call = (\<lambda>_ _. Inr (ChatCompletion [PyNone]))\<rparr>"
  let ?c = "Client ''OpenAI'' ''sk''"
  let ?ms = "[user_message openai ''q'']"
  have h: "\<not> registered openai \<or>
       ((openai = openai \<or> openai = groq) \<and>
        (\<exists>req r. completions_request openai ?ms = Inr req \<and> call ?v ?c req = Inr r \<and> none_content r))"
    by (simp add: completions_request_def role_content_def py_simps)
  show ?thesis
    using get_model_response_none_iff [of ?v ?c openai ?ms ?ms, THEN iffD2, OF h] h
    by (simp add: Let_def)
qed

text \<open>
  C24: the Gemini branch sends only the parts of the last message: for any history,
  appending the Gemini user message for \<open>u\<close> makes the request the single text \<open>u\<close>.
\<close>

theorem gemini_request_last_only:
  "gemini_request (hist @ [user_message gemini u]) =
     Inr (GenerateContent ''gemini-2.0-flash-lite'' [u])"
  by (simp add: gemini_request_def py_simps)

text \<open>
  C6: on a history of N well-formed messages the OpenAI/Groq branch builds exactly N
  role/content pairs, in order, with the stored roles and texts, and picks the model by
  provider.
\<close>

theorem completions_request_pairs:
  "p \<noteq> gemini \<Longrightarrow> list_all (wf_msg p) ms \<Longrightarrow>
   completions_request p ms =
     Inr (ChatCompletionsCreate (map (\<lambda>m. (msg_role m, PyStr (msg_text m))) ms)
            (if p = openai then ''openai/gpt-oss-20b'' else ''llama3-8b-8192''))"
  by (rule completions_request_wf)

theorem completions_request_pairs_witness:
  "openai \<noteq> gemini \<and>
   list_all (wf_msg openai) [user_message openai ''Hi'', assistant_message (PyStr ''Yo'')] \<and>
   completions_request openai [user_message openai ''Hi'', assistant_message (PyStr ''Yo'')] =
     Inr (ChatCompletionsCreate [(''user'', PyStr ''Hi''), (''assistant'', PyStr ''Yo'')]
            ''openai/gpt-oss-20b'')"
proof -
  have h1: "openai \<noteq> gemini" by simp
  have h2: "list_all (wf_msg openai) [user_message openai ''Hi'', assistant_message (PyStr ''Yo'')]"
    by simp
  show ?thesis
    using completions_request_pairs [OF h1 h2] h1 h2 by (simp add: py_simps)
qed

text \<open>
  C25: the Anthropic branch sends the same role/content pairs with the fixed model and
  a budget of 1024 tokens.
\<close>

theorem anthropic_request_pairs:
  "list_all (wf_msg anthropic) ms \<Longrightarrow>
   anthropic_request ms =
     Inr (MessagesCreate ''claude-3-5-sonnet-20240620'' 1024
            (map (\<lambda>m. (msg_role m, PyStr (msg_text m))) ms))"
  by (rule anthropic_request_wf)

theorem anthropic_request_pairs_witness:
  "list_all (wf_msg anthropic) [user_message anthropic ''Hi''] \<and>
   anthropic_request [user_message anthropic ''Hi''] =
     Inr (MessagesCreate ''claude-3-5-sonnet-20240620'' 1024 [(''user'', PyStr ''Hi'')])"
proof -
  have h: "list_all (wf_msg anthropic) [user_message anthropic ''Hi'']" by simp
  show ?thesis using anthropic_request_pairs [OF h] h by (simp add: py_simps)
qed

text \<open>
  C5: the Cohere branch splits a non-empty well-formed history into \<open>chat_history\<close>,
  every message but the last with roles renamed user to USER and assistant to CHATBOT,
  and \<open>message\<close>, the last message's text.
\<close>

theorem cohere_request_split:
  "list_all (wf_msg cohere) ms \<Longrightarrow> ms \<noteq> [] \<Longrightarrow>
   cohere_request ms =
     Inr (CohereChat (PyStr (msg_text (last ms)))
            (map (\<lambda>m. (if msg_role m = ''user'' then ''USER'' else ''CHATBOT'', PyStr (msg_text m)))
               (butlast ms))
            ''command-a-03-2025'')"
  by (rule cohere_request_wf)

text \<open>The spec's three-turn example (USER, ASSISTANT, USER).\<close>

theorem cohere_request_split_witness:
  "list_all (wf_msg cohere)
     [user_message cohere ''a'', assistant_message (PyStr ''b''), user_message cohere ''c''] \<and>
   [user_message cohere ''a'', assistant_message (PyStr ''b''), user_message cohere ''c''] \<noteq> [] \<and>
   cohere_request
     [user_message cohere ''a'', assistant_message (PyStr ''b''), user_message cohere ''c''] =
   Inr (CohereChat (PyStr ''c'') [(''USER'', PyStr ''a''), (''CHATBOT'', PyStr ''b'')]
          ''command-a-03-2025'')"
proof -
  have h: "list_all (wf_msg cohere)
     [user_message cohere ''a'', assistant_message (PyStr ''b''), user_message cohere ''c'']"
    by simp
  show ?thesis
    using cohere_request_split [OF h] h by (simp add: py_simps)
qed

text \<open>
  C15: functional refinement of the adapter. For a registered provider, a well-formed
  history followed by the new user message, and a vendor that never answers a completion
  without content, \<open>get_model_response\<close> (called as the script calls it, with the
  session's list as both arguments) is the spec's adapter on the canonical conversation:
  encode it, invoke the vendor, decode, and turn a failure into the error reply.
\<close>

theorem get_model_response_refines:
  assumes "registered p" and "list_all (wf_msg p) hist" and ms_def: "ms = hist @ [user_message p u]"
    and "\<forall>req r. call v c req = Inr r \<longrightarrow> \<not> none_content r"
  shows "get_model_response v c p ms ms = spec_reply (call v c) p (map abs_msg ms)"
  using assms by (rule adapter_refines)

theorem get_model_response_refines_witness:
  "let v = \<lparr>construct = (\<lambda>_ _. None), call = (\<lambda>_ _. Inr (ChatCompletion [PyStr ''Hello'']))\<rparr>;
       c = Client ''Groq'' ''gsk''
   in registered groq \<and> list_all (wf_msg groq) [] \<and>
      (\<forall>req r. call v c req = Inr r \<longrightarrow> \<not> none_content r) \<and>
      get_model_response v c groq [user_message groq ''Hi''] [user_message groq ''Hi''] =
        spec_reply (call v c) groq (map abs_msg [user_message groq ''Hi''])"
proof -
  let ?v = "\<lparr>construct = (\<lambda>_ _. None), call = (\<lambda>_ _. Inr (ChatCompletion [PyStr ''Hello'']))\<rparr>"
  let ?c = "Client ''Groq'' ''gsk''"
  have h1: "registered groq" by (simp add: registered_iff)
  have h2: "list_all (wf_msg groq) []" by simp
  have h3: "\<forall>req r. call ?v ?c req = Inr r \<longrightarrow> \<not> none_content r" by simp
  show ?thesis
    using get_model_response_refines [OF h1 h2 _ h3, of "[user_message groq ''Hi'']" "''Hi''"] h1 h3
    by (simp add: Let_def)
qed

text \<open>
  C16: where the two adapters part. An OpenAI or Groq completion whose first choice has
  content \<open>None\<close> makes \<open>get_model_response\<close> return \<open>None\<close>, which the script stores
  as the assistant's content; the spec's adapter treats the absent field as a
  DecodeError and replies with its error text.
\<close>

theorem none_content_diverges:
  assumes p: "p = openai \<or> p = groq" and wf: "list_all (wf_msg p) hist"
    and ms: "ms = hist @ [user_message p u]" and req: "completions_request p ms = Inr req"
    and none: "call v c req = Inr (ChatCompletion (PyNone # cs))"
  shows "get_model_response v c p ms ms = PyNone \<and>
         spec_reply (call v c) p (map abs_msg ms) = PyStr (error_reply (DecodeError ''content''))"
proof -
  have reg: "registered p" using p by (auto simp: registered_iff)
  have ad: "adapter_request p ms ms = completions_request p ms"
    using p by (auto simp: adapter_request_def)
  have wfms: "list_all (wf_msg p) ms" using wf ms by simp
  from adapter_request_encode [OF reg wfms ms] req ad
  have enc: "encode p (map abs_msg ms) = Some req" by auto
  have "p \<noteq> gemini" "p \<noteq> anthropic" "p \<noteq> cohere" using p by auto
  then have "code_decode p (ChatCompletion (PyNone # cs)) = Inr PyNone"
    "decode p (ChatCompletion (PyNone # cs)) = Inl (DecodeError ''content'')"
    using code_decode_none [of "ChatCompletion (PyNone # cs)" p] by simp_all
  with reg req ad none enc show ?thesis
    by (simp add: get_model_response_registered spec_reply_def)
qed

theorem none_content_diverges_witness:
  "let v = \<lparr>construct = (\<lambda>_ _. None), call = (\<lambda>_ _. Inr (ChatCompletion [PyNone]))\<rparr>;
       c = Client ''OpenAI'' ''sk'';
       req = ChatCompletionsCreate [(''user'', PyStr ''Hello'')] ''openai/gpt-oss-20b''
   in (openai = openai \<or> openai = groq) \<and> list_all (wf_msg openai) [] \<and>
      completions_request openai [user_message openai ''Hello''] = Inr req \<and>
      call v c req = Inr (ChatCompletion [PyNone]) \<and>
      get_model_response v c openai [user_message openai ''Hello''] [user_message openai ''Hello''] = PyNone \<and>
      spec_reply (call v c) openai (map abs_msg [user_message openai ''Hello'']) =
        PyStr (''An error occurred: missing field '' @ quoted ''content'')"
proof -
  let ?v = "\<lparr>construct = (\<lambda>_ _. None), call = (\<lambda>_ _. Inr (ChatCompletion [PyNone]))\<rparr>"
  let ?c = "Client ''OpenAI'' ''sk''"
  let ?req = "ChatCompletionsCreate [(''user'', PyStr ''Hello'')] ''openai/gpt-oss-20b''"
  have h: "openai = openai \<or> openai = groq" "list_all (wf_msg openai) []"
    "[user_message openai ''Hello''] = [] @ [user_message openai ''Hello'']"
    "completions_request openai [user_message openai ''Hello''] = Inr ?req"
    "call ?v ?c ?req = Inr (ChatCompletion (PyNone # []))"
    by (simp_all add: completions_request_def role_content_def py_simps)
  show ?thesis using none_content_diverges [OF h] h
    by (simp add: Let_def error_reply_def)
qed

end
