(* ===== verification/Session.thy ===== *)
theory Session
  imports Adapter
begin

text \<open>
  The session controller of \<open>src/main.py\<close>: the whole script, which Streamlit runs from
  top to bottom on every interaction. Its state is \<open>st.session_state\<close>, a dictionary
  with at most the keys \<open>api_key\<close>, \<open>provider\<close> and \<open>messages\<close>: a record of three
  optional fields, \<open>None\<close> where the key is absent. An interaction is an \<open>event\<close>: the
  current values of the sidebar widgets (the select box and the password input),
  whether the button was clicked in this run, and what \<open>st.chat_input\<close> returned.
  \<open>script_pass\<close> is one run of the script (sidebar, lines 36--53; initialisation, lines
  58--59; the configured block with its \<open>try\<close>, lines 93--155) and reports whether it
  ended in \<open>st.rerun()\<close>; \<open>run_script\<close> follows a rerun with the second pass Streamlit
  makes, in which no button is clicked and no chat input is submitted. The rendered
  page is a list of \<open>ui\<close> elements; every pass first renders the static top of lines
  12--24 (\<open>page_setup\<close>), and \<open>page\<close> is the page an interaction leaves. A run that
  the user interrupts by acting again is stopped by Streamlit at its next \<open>st\<close> call:
  \<open>stopped_run\<close> is the state it leaves, for each point where it can stop. The session
  is a state machine: \<open>vendor_step v\<close> relates a state to the state one run, complete
  or stopped, leaves when the vendor libraries behave as \<open>v\<close>, \<open>session_step\<close> does so
  for any vendor behaviour, and \<open>reachable\<close> collects the states a fresh session can
  reach. This theory
  holds the definitions, their characteristic equations and the invariant; the
  properties of the controller are in \<open>Session_Props\<close>.
\<close>

record session =
  ss_api_key :: "string option"
  ss_provider :: "string option"
  ss_messages :: "msg list option"

definition empty_session :: session where
  "empty_session = \<lparr>ss_api_key = None, ss_provider = None, ss_messages = None\<rparr>"

text \<open>The arguments of \<open>st.set_page_config\<close> (lines 12--17).\<close>

record page_config =
  page_title :: string
  page_icon :: string
  page_layout :: string
  initial_sidebar_state :: string

datatype ui =
    UiError string
  | UiSuccess string
  | UiInfo string
  | UiChat string pyval    \<comment> \<open>\<open>with st.chat_message(role): st.markdown(content)\<close>\<close>
  | UiException string     \<comment> \<open>an uncaught exception, shown by Streamlit\<close>
  | UiPageConfig page_config  \<comment> \<open>\<open>st.set_page_config(...)\<close>\<close>
  | UiTitle string
  | UiCaption string
  | UiHeader string
  | UiBubble string        \<comment> \<open>an empty \<open>st.chat_message(role)\<close> container\<close>

record event =
  ev_name :: string
  ev_key :: string
  ev_button :: bool
  ev_chat :: "string option"

section \<open>Page setup (lines 12--24)\<close>

text \<open>
  Every pass starts with the same calls: the page configuration, the title, the caption
  and the sidebar's header. Strings are byte lists: the robot face U+1F916 of the title
  and the icon is its UTF-8 encoding.
\<close>

definition robot_face :: string where
  "robot_face = [CHR 0xF0, CHR 0x9F, CHR 0xA4, CHR 0x96]"

definition app_config :: page_config where
  "app_config =
     \<lparr>page_title = ''Multi-Provider Chatbot '' @ robot_face, page_icon = robot_face,
      page_layout = ''centered'', initial_sidebar_state = ''expanded''\<rparr>"

definition page_setup :: "ui list" where
  "page_setup =
     [UiPageConfig app_config,
      UiTitle (''Multi-Provider Chatbot '' @ robot_face),
      UiCaption ''Select a provider, enter your API key, and start chatting.'',
      UiHeader ''Configuration'']"

section \<open>Sidebar (lines 36--53)\<close>

text \<open>
  The result is the new state, the sidebar's messages, and whether the run ends in
  \<open>st.rerun()\<close>. Clearing the session deletes every key.
\<close>

definition sidebar :: "event \<Rightarrow> session \<Rightarrow> (session \<times> ui list \<times> bool) result" where
  "sidebar ev ss =
     bindE (select_provider (ev_name ev))
       (\<lambda>selected.
          if ev_button ev then
            (if ev_key ev = [] then Inr (ss, [UiError ''API key is required.''], False)
             else
               (let ss1 = (if ss_provider ss \<noteq> None \<and> ss_provider ss \<noteq> Some selected
                           then empty_session else ss)
                in Inr (ss1\<lparr>ss_api_key := Some (ev_key ev), ss_provider := Some selected\<rparr>,
                        [UiSuccess (ev_name ev @ '' API key set successfully!'')], True)))
          else Inr (ss, [], False))"

section \<open>Chat history initialisation (lines 58--59)\<close>

definition init_messages :: "session \<Rightarrow> session" where
  "init_messages ss = (if ss_messages ss = None then ss\<lparr>ss_messages := Some []\<rparr> else ss)"

section \<open>Displaying the history (lines 109--119)\<close>

definition display_content :: "string \<Rightarrow> msg \<Rightarrow> pyval result" where
  "display_content provider m =
     (let role = msg_role m in
      if provider = gemini \<and> role = ''user''
      then bindE (get_parts m) (\<lambda>ps. bindE (py_first ps) (\<lambda>s. Inr (PyStr s)))
      else if role \<in> set [''user'', ''assistant''] then get_content m
      else Inr (PyStr []))"

definition display_message :: "string \<Rightarrow> msg \<Rightarrow> ui list result" where
  "display_message provider m =
     bindE (display_content provider m)
       (\<lambda>c. Inr (if truthy c then [UiChat (msg_role m) c] else []))"

text \<open>The loop: what it rendered before an exception stays on the page.\<close>

fun display_messages :: "string \<Rightarrow> msg list \<Rightarrow> ui list \<times> exc option" where
  "display_messages provider [] = ([], None)"
| "display_messages provider (m # ms) =
     (case display_message provider m of
        Inl e \<Rightarrow> ([], Some e)
      | Inr out \<Rightarrow> (let (out', err) = display_messages provider ms in (out @ out', err)))"

section \<open>One chat turn (lines 122--149)\<close>

text \<open>
  The user message is appended before the model is asked; \<open>client = None\<close> is an
  unbound \<open>client\<close>: the assistant's container is opened at line 135 and stays empty
  when the NameError of line 137 leaves it, and the user message stays appended.
\<close>

definition chat_turn ::
  "vendor \<Rightarrow> client option \<Rightarrow> string \<Rightarrow> string \<Rightarrow> msg list \<Rightarrow> msg list \<times> ui list \<times> exc option" where
  "chat_turn v client provider prompt msgs =
     (let msgs1 = msgs @ [user_message provider prompt];
          shown = [UiChat ''user'' (PyStr prompt)]
      in case client of
           None \<Rightarrow> (msgs1, shown @ [UiBubble ''assistant''], Some (NameError ''client''))
         | Some c \<Rightarrow>
             (let response = get_model_response v c provider msgs1 msgs1
              in (msgs1 @ [assistant_message response],
                  shown @ [UiChat ''assistant'' response], None)))"

section \<open>The configured block (lines 93--155)\<close>

definition failure_message :: "exc \<Rightarrow> string" where
  "failure_message e =
     ''Failed to initialize the client. Please check your API key. Error: '' @ exc_str e"

definition messages_of :: "session \<Rightarrow> msg list" where
  "messages_of ss = (case ss_messages ss of None \<Rightarrow> [] | Some ms \<Rightarrow> ms)"

text \<open>
  The block is written over the chat turn \<open>turn\<close> it runs, so that a run Streamlit stops
  inside the turn shares the rest of it.
\<close>

definition main_block_turn ::
  "vendor \<Rightarrow> (client option \<Rightarrow> string \<Rightarrow> string \<Rightarrow> msg list \<Rightarrow> msg list \<times> ui list \<times> exc option)
   \<Rightarrow> event \<Rightarrow> session \<Rightarrow> session \<times> ui list" where
  "main_block_turn v turn ev ss =
     (case (ss_api_key ss, ss_provider ss) of
        (Some key, Some provider) \<Rightarrow>
          (case init_client v provider key of
             Inl e \<Rightarrow> (ss, [UiError (failure_message e)])
           | Inr client \<Rightarrow>
               (let (shown, err) = display_messages provider (messages_of ss) in
                case err of
                  Some e \<Rightarrow> (ss, shown @ [UiError (failure_message e)])
                | None \<Rightarrow>
                    (case ev_chat ev of
                       Some prompt \<Rightarrow>
                         (if prompt \<noteq> [] then
                            (let (msgs', out, err') = turn client provider prompt (messages_of ss)
                             in (ss\<lparr>ss_messages := Some msgs'\<rparr>,
                                 shown @ out @
                                   (case err' of None \<Rightarrow> [] | Some e \<Rightarrow> [UiError (failure_message e)])))
                          else (ss, shown))
                     | None \<Rightarrow> (ss, shown))))
      | _ \<Rightarrow> (ss, [UiInfo ''Please configure your API key in the sidebar to start chatting.'']))"

definition main_block :: "vendor \<Rightarrow> event \<Rightarrow> session \<Rightarrow> session \<times> ui list" where
  "main_block v ev ss = main_block_turn v (chat_turn v) ev ss"

section \<open>Whole runs\<close>

definition script_pass :: "vendor \<Rightarrow> event \<Rightarrow> session \<Rightarrow> session \<times> ui list \<times> bool" where
  "script_pass v ev ss =
     (case sidebar ev ss of
        Inl e \<Rightarrow> (ss, [UiException (exc_str e)], False)
      | Inr (ss1, out1, rerun) \<Rightarrow>
          (if rerun then (ss1, out1, True)
           else (let (ss2, out2) = main_block v ev (init_messages ss1) in (ss2, out1 @ out2, False))))"

definition rerun_event :: "event \<Rightarrow> event" where
  "rerun_event ev = ev\<lparr>ev_button := False, ev_chat := None\<rparr>"

definition run_script :: "vendor \<Rightarrow> event \<Rightarrow> session \<Rightarrow> session \<times> ui list" where
  "run_script v ev ss =
     (let (ss1, out1, rerun) = script_pass v ev ss
      in if rerun then (let (ss2, out2, _) = script_pass v (rerun_event ev) ss1 in (ss2, out2))
         else (ss1, out1))"

text \<open>
  The page an interaction leaves: the static top every pass renders first, then what the
  last pass rendered.
\<close>

definition page :: "vendor \<Rightarrow> event \<Rightarrow> session \<Rightarrow> session \<times> ui list" where
  "page v ev ss = (let (ss', out) = run_script v ev ss in (ss', page_setup @ out))"

section \<open>Interrupted runs\<close>

text \<open>
  When the user acts while a run is still going (typically during the model call of line
  137), Streamlit stops that run at its next \<open>st\<close> call with an exception that is not an
  \<open>Exception\<close>, so the \<open>except\<close> of line 152 does not catch it, and starts a new run.
  Only the assignments to \<open>st.session_state\<close> made before the stop survive. The calls
  that can raise the stop divide the script into the points below: before the sidebar
  changes anything (lines 12--44), after its assignments (line 52), after the history is
  initialised (lines 93--126, and the rerun pass), and inside a chat turn after line 130
  appended the user message (lines 132--138). A stopped run renders nothing that lasts:
  the next run replaces its page.
\<close>

datatype stop_point = StopTop | StopSidebar | StopBlock | StopTurn

definition stopped_turn ::
  "client option \<Rightarrow> string \<Rightarrow> string \<Rightarrow> msg list \<Rightarrow> msg list \<times> ui list \<times> exc option" where
  "stopped_turn client provider prompt msgs = (msgs @ [user_message provider prompt], [], None)"

definition stopped_run :: "vendor \<Rightarrow> event \<Rightarrow> stop_point \<Rightarrow> session \<Rightarrow> session" where
  "stopped_run v ev at ss =
     (case sidebar ev ss of
        Inl _ \<Rightarrow> ss
      | Inr (ss1, _, rerun) \<Rightarrow>
          (case at of
             StopTop \<Rightarrow> ss
           | StopSidebar \<Rightarrow> ss1
           | StopBlock \<Rightarrow> init_messages ss1
           | StopTurn \<Rightarrow>
               (if rerun then init_messages ss1
                else fst (main_block_turn v stopped_turn ev (init_messages ss1)))))"

text \<open>
  The steps of a session whose vendor behaves as \<open>v\<close>: a complete run, or a run stopped
  at one of the points above. \<open>session_step\<close> allows any vendor behaviour.
\<close>

inductive vendor_step :: "vendor \<Rightarrow> session \<Rightarrow> session \<Rightarrow> bool" where
  run: "vendor_step v ss (fst (run_script v ev ss))"
| stop: "vendor_step v ss (stopped_run v ev at ss)"

inductive session_step :: "session \<Rightarrow> session \<Rightarrow> bool" where
  run: "session_step ss (fst (run_script v ev ss))"
| stop: "session_step ss (stopped_run v ev at ss)"

inductive_cases session_stepE: "session_step ss ss'"

inductive_simps session_step_iff: "session_step ss ss'"

inductive reachable :: "session \<Rightarrow> bool" where
  start: "reachable empty_session"
| step: "reachable ss \<Longrightarrow> session_step ss ss' \<Longrightarrow> reachable ss'"

lemmas session_defs [model_defs] = sidebar_def init_messages_def main_block_def main_block_turn_def
  script_pass_def run_script_def rerun_event_def chat_turn_def messages_of_def

section \<open>Characteristic equations\<close>

lemma sidebar_KeyError [simp]:
  "select_provider (ev_name ev) = Inl e \<Longrightarrow> sidebar ev ss = Inl e"
  by (simp add: sidebar_def)

lemma sidebar_no_button:
  "select_provider (ev_name ev) = Inr p \<Longrightarrow> \<not> ev_button ev \<Longrightarrow> sidebar ev ss = Inr (ss, [], False)"
  by (simp add: sidebar_def)

lemma sidebar_empty_key:
  "select_provider (ev_name ev) = Inr p \<Longrightarrow> ev_button ev \<Longrightarrow> ev_key ev = [] \<Longrightarrow>
   sidebar ev ss = Inr (ss, [UiError ''API key is required.''], False)"
  by (simp add: sidebar_def)

lemma sidebar_set_key:
  "select_provider (ev_name ev) = Inr p \<Longrightarrow> ev_button ev \<Longrightarrow> ev_key ev \<noteq> [] \<Longrightarrow>
   sidebar ev ss =
     Inr ((if ss_provider ss \<noteq> None \<and> ss_provider ss \<noteq> Some p then empty_session else ss)
            \<lparr>ss_api_key := Some (ev_key ev), ss_provider := Some p\<rparr>,
          [UiSuccess (ev_name ev @ '' API key set successfully!'')], True)"
  by (simp add: sidebar_def)

lemma sidebar_rerun_event:
  "select_provider (ev_name ev) = Inr p \<Longrightarrow> sidebar (rerun_event ev) ss = Inr (ss, [], False)"
  by (simp add: sidebar_def rerun_event_def)

lemma init_client_registered:
  "registered p \<Longrightarrow> init_client v p k = Inr c \<Longrightarrow> \<exists>c'. c = Some c'"
  by (auto simp: init_client_def make_client_def registered_iff split: option.splits)

lemma init_client_unregistered:
  "\<not> registered p \<Longrightarrow> init_client v p k = Inr None"
  by (simp add: init_client_def registered_iff)

lemma messages_of_init [simp]: "messages_of (init_messages ss) = messages_of ss"
  by (simp add: messages_of_def init_messages_def)

lemma messages_of_update [simp]:
  "messages_of (ss\<lparr>ss_api_key := x\<rparr>) = messages_of ss"
  "messages_of (ss\<lparr>ss_provider := y\<rparr>) = messages_of ss"
  by (simp_all add: messages_of_def)

lemma init_messages_fields [simp]:
  "ss_api_key (init_messages ss) = ss_api_key ss"
  "ss_provider (init_messages ss) = ss_provider ss"
  "ss_messages (init_messages ss) = Some (messages_of ss)"
  by (simp_all add: init_messages_def messages_of_def split: option.splits)

text \<open>
  A stored history is displayed without exception, turn by turn; a reply without text
  (empty, or \<open>None\<close>) is not shown.
\<close>

lemma display_message_wf:
  assumes wf: "wf_msg p m"
  shows "display_message p m =
     Inr (if msg_text m \<noteq> [] then [UiChat (msg_role m) (PyStr (msg_text m))] else [])"
proof (cases "p = gemini \<and> msg_role m = ''user''")
  case True
  with wf show ?thesis
    by (simp add: display_message_def display_content_def wf_msg_parts)
next
  case False
  with wf have "get_content m = Inr (PyStr (msg_text m))"
    by (auto intro: wf_msg_content)
  moreover from wf have "msg_role m = ''user'' \<or> msg_role m = ''assistant''"
    by (rule wf_msg_role)
  ultimately show ?thesis
    using False by (auto simp: display_message_def display_content_def Let_def)
qed

lemma display_message_stored:
  assumes st: "stored_msg p m"
  shows "display_message p m =
     Inr (if msg_text m \<noteq> [] then [UiChat (msg_role m) (PyStr (msg_text m))] else [])"
proof (cases "wf_msg p m")
  case True
  then show ?thesis by (rule display_message_wf)
next
  case False
  with st show ?thesis
    by (auto simp: display_message_def display_content_def dest: stored_not_wf)
qed

lemma display_messages_wf:
  "list_all (stored_msg p) ms \<Longrightarrow>
   display_messages p ms =
     (map (\<lambda>m. UiChat (msg_role m) (PyStr (msg_text m))) (filter (\<lambda>m. msg_text m \<noteq> []) ms), None)"
  by (induction ms) (simp_all add: display_message_stored)

lemma chat_turn_client:
  "chat_turn v (Some c) p u ms =
     (let ms1 = ms @ [user_message p u]; r = get_model_response v c p ms1 ms1
      in (ms1 @ [assistant_message r], [UiChat ''user'' (PyStr u), UiChat ''assistant'' r], None))"
  by (simp add: chat_turn_def Let_def)

lemma main_block_unconfigured:
  "ss_api_key ss = None \<or> ss_provider ss = None \<Longrightarrow>
   main_block v ev ss = (ss, [UiInfo ''Please configure your API key in the sidebar to start chatting.''])"
  by (auto simp: main_block_def main_block_turn_def split: option.splits)

lemma main_block_init_fails:
  "ss_api_key ss = Some k \<Longrightarrow> ss_provider ss = Some p \<Longrightarrow> init_client v p k = Inl e \<Longrightarrow>
   main_block v ev ss = (ss, [UiError (failure_message e)])"
  by (simp add: main_block_def main_block_turn_def)

lemma main_block_no_prompt:
  "(case ev_chat ev of None \<Rightarrow> True | Some u \<Rightarrow> u = []) \<Longrightarrow> fst (main_block v ev ss) = ss"
  by (auto simp: main_block_def main_block_turn_def split: option.splits sum.splits prod.splits)

lemma main_block_chat:
  assumes "ss_api_key ss = Some k" "ss_provider ss = Some p" "init_client v p k = Inr (Some c)"
    and "list_all (stored_msg p) (messages_of ss)" and "ev_chat ev = Some u" "u \<noteq> []"
  shows "main_block v ev ss =
    (let ms1 = messages_of ss @ [user_message p u]; r = get_model_response v c p ms1 ms1
     in (ss\<lparr>ss_messages := Some (ms1 @ [assistant_message r])\<rparr>,
         fst (display_messages p (messages_of ss)) @
           [UiChat ''user'' (PyStr u), UiChat ''assistant'' r]))"
  using assms by (simp add: main_block_def main_block_turn_def display_messages_wf chat_turn_client Let_def)

lemma main_block_fields:
  "ss_api_key (fst (main_block v ev ss)) = ss_api_key ss \<and>
   ss_provider (fst (main_block v ev ss)) = ss_provider ss"
  by (auto simp: main_block_def main_block_turn_def split: option.splits sum.splits prod.splits)

lemma script_pass_Inr:
  "sidebar ev ss = Inr (ss1, out1, rerun) \<Longrightarrow>
   script_pass v ev ss =
     (if rerun then (ss1, out1, True)
      else (fst (main_block v ev (init_messages ss1)),
            out1 @ snd (main_block v ev (init_messages ss1)), False))"
  by (simp add: script_pass_def case_prod_beta)

lemma run_script_eq:
  "run_script v ev ss =
     (let (ss1, out1, rerun) = script_pass v ev ss
      in if rerun then (fst (script_pass v (rerun_event ev) ss1), fst (snd (script_pass v (rerun_event ev) ss1)))
         else (ss1, out1))"
  by (simp add: run_script_def case_prod_beta)

lemma run_script_no_button:
  "select_provider (ev_name ev) = Inr q \<Longrightarrow> \<not> ev_button ev \<Longrightarrow>
   run_script v ev ss = main_block v ev (init_messages ss)"
  by (simp add: run_script_eq script_pass_Inr sidebar_no_button)

lemma run_script_set_key:
  assumes "select_provider (ev_name ev) = Inr p" "ev_button ev" "ev_key ev \<noteq> []"
  shows "fst (run_script v ev ss) =
    init_messages ((if ss_provider ss \<noteq> None \<and> ss_provider ss \<noteq> Some p then empty_session else ss)
                     \<lparr>ss_api_key := Some (ev_key ev), ss_provider := Some p\<rparr>)"
proof -
  have "ev_chat (rerun_event ev) = None" by (simp add: rerun_event_def)
  then show ?thesis
    using assms
    by (simp add: run_script_eq script_pass_Inr sidebar_set_key sidebar_rerun_event
        main_block_no_prompt)
qed

text \<open>A run whose button click does not set a key is the configured block on the initialised state.\<close>

lemma run_script_main:
  assumes "select_provider (ev_name ev) = Inr q" "\<not> (ev_button ev \<and> ev_key ev \<noteq> [])"
  shows "fst (run_script v ev ss) = fst (main_block v ev (init_messages ss))"
proof (cases "ev_button ev")
  case True
  with assms show ?thesis by (simp add: run_script_eq script_pass_Inr [OF sidebar_empty_key])
next
  case False
  with assms show ?thesis by (simp add: run_script_no_button)
qed

lemma run_script_KeyError:
  "select_provider (ev_name ev) = Inl e \<Longrightarrow> fst (run_script v ev ss) = ss"
  by (simp add: run_script_eq script_pass_def)

lemma main_block_chat_only:
  "ev_chat ev = ev_chat ev' \<Longrightarrow> main_block v ev ss = main_block v ev' ss"
  unfolding main_block_def main_block_turn_def by (simp only:)

lemma init_messages_idem [simp]: "init_messages (init_messages ss) = init_messages ss"
  by (simp add: init_messages_def)

lemma init_messages_set_key [simp]:
  "init_messages ((init_messages ss)\<lparr>ss_api_key := a, ss_provider := b\<rparr>) =
   init_messages (ss\<lparr>ss_api_key := a, ss_provider := b\<rparr>)"
  by (simp add: init_messages_def)

lemma chat_turn_appends: "\<exists>xs. fst (chat_turn v c p u ms) = ms @ xs"
  by (cases c) (auto simp: chat_turn_def Let_def)

lemma chat_turn_length: "length (fst (chat_turn v c p u ms)) \<le> length ms + 2"
  by (cases c) (auto simp: chat_turn_def Let_def)

text \<open>The configured block changes the state only by the history one chat turn leaves.\<close>

lemma main_block_shape:
  "fst (main_block v ev ss) = ss \<or>
   (\<exists>c p u. fst (main_block v ev ss) = ss\<lparr>ss_messages := Some (fst (chat_turn v c p u (messages_of ss)))\<rparr>)"
  by (auto simp: main_block_def main_block_turn_def split: option.splits sum.splits prod.splits) (metis fst_conv)

lemma main_block_appends:
  "\<exists>xs. messages_of (fst (main_block v ev ss)) = messages_of ss @ xs"
  using main_block_shape [of v ev ss] chat_turn_appends by (auto simp: messages_of_def)

text \<open>
  Every run is one of three: the select box value raises KeyError and nothing changes; a
  key is set (and the run ends in a rerun); or the configured block runs on the
  initialised state, with or without a preceding "API key is required.".
\<close>

lemma run_script_cases:
  obtains (key_error) e where "select_provider (ev_name ev) = Inl e" "fst (run_script v ev ss) = ss"
  | (set_key) q where "select_provider (ev_name ev) = Inr q" "ev_button ev" "ev_key ev \<noteq> []"
      "fst (run_script v ev ss) =
         init_messages ((if ss_provider ss \<noteq> None \<and> ss_provider ss \<noteq> Some q then empty_session else ss)
                          \<lparr>ss_api_key := Some (ev_key ev), ss_provider := Some q\<rparr>)"
  | (main) "fst (run_script v ev ss) = fst (main_block v ev (init_messages ss))"
proof (cases "select_provider (ev_name ev)")
  case (Inl e)
  then show ?thesis using that(1) by (simp add: run_script_KeyError)
next
  case (Inr q)
  show ?thesis
  proof (cases "ev_button ev \<and> ev_key ev \<noteq> []")
    case True
    with Inr show ?thesis using that(2) by (simp add: run_script_set_key)
  next
    case False
    with Inr show ?thesis using that(3) by (simp add: run_script_main)
  qed
qed

section \<open>The session invariant\<close>

text \<open>
  Provider and key are set together; a set provider is registered and a set key is not
  empty; without a provider the history is empty, and with provider \<open>p\<close> it is a
  user-led history (\<open>user_led\<close>) of messages stored for \<open>p\<close>.
\<close>

definition session_inv :: "session \<Rightarrow> bool" where
  "session_inv ss \<longleftrightarrow>
     (case (ss_provider ss, ss_api_key ss) of
        (None, None) \<Rightarrow> messages_of ss = []
      | (Some p, Some k) \<Rightarrow> registered p \<and> k \<noteq> [] \<and> wf_conv p (messages_of ss)
      | _ \<Rightarrow> False)"

lemma session_inv_empty [simp]: "session_inv empty_session"
  by (simp add: session_inv_def empty_session_def messages_of_def)

lemma session_inv_init_messages [simp]: "session_inv (init_messages ss) = session_inv ss"
  by (simp add: session_inv_def split: option.splits)

lemma sidebar_inv:
  assumes inv: "session_inv ss" and sb: "sidebar ev ss = Inr (ss1, out, rerun)"
  shows "session_inv ss1"
proof -
  from sb obtain p where sel: "select_provider (ev_name ev) = Inr p"
    by (cases "select_provider (ev_name ev)") simp_all
  then have reg: "registered p" by (rule select_provider_Inr_registered)
  show ?thesis
  proof (cases "ev_button ev \<and> ev_key ev \<noteq> []")
    case True
    with sb sel have ss1: "ss1 = (if ss_provider ss \<noteq> None \<and> ss_provider ss \<noteq> Some p then empty_session else ss)
        \<lparr>ss_api_key := Some (ev_key ev), ss_provider := Some p\<rparr>"
      by (simp add: sidebar_set_key)
    from inv have "ss_provider ss = None \<Longrightarrow> messages_of ss = []"
      by (auto simp: session_inv_def split: option.splits)
    moreover from inv have "ss_provider ss = Some p \<Longrightarrow> wf_conv p (messages_of ss)"
      by (auto simp: session_inv_def split: option.splits)
    ultimately show ?thesis
      using True reg by (auto simp: ss1 session_inv_def messages_of_def empty_session_def)
  next
    case False
    with sb sel inv show ?thesis
      by (cases "ev_button ev") (auto simp: sidebar_no_button sidebar_empty_key)
  qed
qed

text \<open>
  What a configured block does to a session that satisfies the invariant: nothing, or
  one chat turn that appends the user message and the adapter's reply.
\<close>

lemma main_block_cases:
  assumes inv: "session_inv ss"
  obtains "fst (main_block v ev ss) = ss"
  | p k c u where "ss_provider ss = Some p" "ss_api_key ss = Some k" "registered p"
      "init_client v p k = Inr (Some c)" "u \<noteq> []"
      "fst (main_block v ev ss) =
         ss\<lparr>ss_messages := Some (messages_of ss @ [user_message p u,
             assistant_message (get_model_response v c p (messages_of ss @ [user_message p u])
                                                       (messages_of ss @ [user_message p u]))])\<rparr>"
proof (cases "(case ev_chat ev of None \<Rightarrow> True | Some u \<Rightarrow> u = [])")
  case True
  then show ?thesis using that(1) by (simp add: main_block_no_prompt)
next
  case False
  then obtain u where u: "ev_chat ev = Some u" "u \<noteq> []"
    by (auto split: option.splits)
  show ?thesis
  proof (cases "ss_api_key ss = None \<or> ss_provider ss = None")
    case True
    then show ?thesis using that(1) by (simp add: main_block_unconfigured)
  next
    case False
    then obtain k p where kp: "ss_api_key ss = Some k" "ss_provider ss = Some p" by auto
    with inv have reg: "registered p" and wf: "list_all (stored_msg p) (messages_of ss)"
      by (simp_all add: session_inv_def wf_conv_def)
    show ?thesis
    proof (cases "init_client v p k")
      case (Inl e)
      with kp show ?thesis using that(1) by (simp add: main_block_init_fails)
    next
      case (Inr cl)
      with reg obtain c where c: "init_client v p k = Inr (Some c)"
        using init_client_registered by blast
      with kp wf u show ?thesis
        using that(2) [OF kp(2,1) reg c u(2)] by (simp add: main_block_chat Let_def)
    qed
  qed
qed

lemma main_block_inv:
  assumes inv: "session_inv ss"
  shows "session_inv (fst (main_block v ev ss))"
  using inv
proof (cases rule: main_block_cases [of ss v ev])
  case 1
  with inv show ?thesis by simp
next
  case (2 p k c u)
  with inv show ?thesis
    by (simp add: session_inv_def messages_of_def wf_conv_append_turn)
qed

lemma script_pass_inv:
  assumes inv: "session_inv ss"
  shows "session_inv (fst (script_pass v ev ss))"
proof (cases "sidebar ev ss")
  case (Inl e)
  with inv show ?thesis by (simp add: script_pass_def)
next
  case (Inr r)
  then obtain ss1 out1 rerun where r: "sidebar ev ss = Inr (ss1, out1, rerun)"
    by (cases r) auto
  with inv have "session_inv ss1" by (rule sidebar_inv)
  then have "session_inv (fst (main_block v ev (init_messages ss1)))"
    by (simp add: main_block_inv)
  with r \<open>session_inv ss1\<close> show ?thesis
    by (simp add: script_pass_Inr)
qed

lemma run_script_inv:
  "session_inv ss \<Longrightarrow> session_inv (fst (run_script v ev ss))"
  by (simp add: run_script_eq case_prod_beta script_pass_inv)

section \<open>Interrupted runs\<close>

text \<open>
  The sidebar keeps the history or empties it while switching the provider, and never
  unsets the provider or the key.
\<close>

lemma sidebar_messages:
  "sidebar ev ss = Inr (ss1, out, rerun) \<Longrightarrow>
   messages_of ss1 = messages_of ss \<or> (messages_of ss1 = [] \<and> ss_provider ss1 \<noteq> ss_provider ss)"
  by (auto simp: sidebar_def bindE_def empty_session_def messages_of_def Let_def
      split: sum.splits if_splits)

lemma sidebar_no_rerun: "sidebar ev ss = Inr (ss1, out, False) \<Longrightarrow> ss1 = ss"
  by (auto simp: sidebar_def bindE_def Let_def split: sum.splits if_splits)

lemma sidebar_rerun:
  "sidebar ev ss = Inr (ss1, out, True) \<Longrightarrow>
   \<exists>q. select_provider (ev_name ev) = Inr q \<and> ev_button ev \<and> ev_key ev \<noteq> [] \<and>
       ss1 = (if ss_provider ss \<noteq> None \<and> ss_provider ss \<noteq> Some q then empty_session else ss)
               \<lparr>ss_api_key := Some (ev_key ev), ss_provider := Some q\<rparr>"
  by (auto simp: sidebar_def bindE_def Let_def split: sum.splits if_splits)

lemma sidebar_fields:
  "sidebar ev ss = Inr (ss1, out, rerun) \<Longrightarrow> ss_provider ss \<noteq> None \<Longrightarrow> ss_api_key ss \<noteq> None \<Longrightarrow>
   ss_provider ss1 \<noteq> None \<and> ss_api_key ss1 \<noteq> None"
  by (auto simp: sidebar_def bindE_def Let_def split: sum.splits if_splits)

text \<open>A turn stopped inside the configured block leaves only the user message appended.\<close>

lemma main_block_turn_shape:
  "fst (main_block_turn v turn ev ss) = ss \<or>
   (\<exists>c p u. ss_provider ss = Some p \<and> ss_api_key ss \<noteq> None \<and> u \<noteq> [] \<and>
      fst (main_block_turn v turn ev ss) = ss\<lparr>ss_messages := Some (fst (turn c p u (messages_of ss)))\<rparr>)"
  by (auto simp: main_block_turn_def split: option.splits sum.splits prod.splits) (metis fst_conv)

lemma stopped_block_cases:
  obtains "fst (main_block_turn v stopped_turn ev ss) = ss"
  | p u where "ss_provider ss = Some p" "ss_api_key ss \<noteq> None" "u \<noteq> []"
      "fst (main_block_turn v stopped_turn ev ss) =
         ss\<lparr>ss_messages := Some (messages_of ss @ [user_message p u])\<rparr>"
  using that main_block_turn_shape [of v stopped_turn ev ss] by (auto simp: stopped_turn_def)

lemma stopped_run_cases:
  obtains (same) "stopped_run v ev at ss = ss"
  | (sidebar) ss1 out rerun where "sidebar ev ss = Inr (ss1, out, rerun)"
      "stopped_run v ev at ss = ss1 \<or> stopped_run v ev at ss = init_messages ss1"
  | (turn) out p u where "sidebar ev ss = Inr (ss, out, False)" "ss_provider ss = Some p"
      "ss_api_key ss \<noteq> None" "u \<noteq> []"
      "stopped_run v ev at ss =
         (init_messages ss)\<lparr>ss_messages := Some (messages_of ss @ [user_message p u])\<rparr>"
proof (cases "sidebar ev ss")
  case (Inl e)
  then show ?thesis using that(1) by (simp add: stopped_run_def)
next
  case (Inr r)
  then obtain ss1 out rerun where sb: "sidebar ev ss = Inr (ss1, out, rerun)"
    by (cases r) auto
  show ?thesis
  proof (cases "at = StopTurn \<and> \<not> rerun")
    case True
    with sb have sb': "sidebar ev ss = Inr (ss, out, False)" and ss1: "ss1 = ss"
      using sidebar_no_rerun by auto
    show ?thesis
    proof (cases rule: stopped_block_cases [of v ev "init_messages ss1"])
      case 1
      with sb True show ?thesis using that(2) [OF sb] by (simp add: stopped_run_def)
    next
      case (2 p u)
      with sb True show ?thesis using that(3) [OF sb'] by (simp add: stopped_run_def ss1)
    qed
  next
    case False
    with sb show ?thesis using that(1) that(2) [OF sb]
      by (cases at) (auto simp: stopped_run_def)
  qed
qed

lemma stopped_run_inv:
  assumes inv: "session_inv ss"
  shows "session_inv (stopped_run v ev at ss)"
proof (cases rule: stopped_run_cases [of v ev at ss])
  case same
  with inv show ?thesis by simp
next
  case (sidebar ss1 out rerun)
  with inv sidebar_inv [OF inv] show ?thesis by auto
next
  case (turn out p u)
  with inv have "wf_conv p (messages_of ss @ [user_message p u])"
    by (auto simp: session_inv_def intro: wf_conv_append_user split: option.splits)
  with turn inv show ?thesis
    by (auto simp: session_inv_def messages_of_def split: option.splits)
qed

lemma reachable_inv: "reachable ss \<Longrightarrow> session_inv ss"
proof (induction rule: reachable.induct)
  case start
  show ?case by simp
next
  case (step ss ss')
  from step.hyps(2) step.IH show ?case
    by (auto elim!: session_stepE simp: run_script_inv stopped_run_inv)
qed

lemma run_script_ask:
  assumes inv: "session_inv ss" and conf: "ss_provider ss = Some p" "ss_api_key ss = Some k"
    and cl: "init_client v p k = Inr (Some c)" and sel: "select_provider (ev_name ev) = Inr q"
    and ev: "\<not> ev_button ev" "ev_chat ev = Some u" "u \<noteq> []"
  shows "run_script v ev ss =
    (let ms1 = messages_of ss @ [user_message p u]; r = get_model_response v c p ms1 ms1
     in ((init_messages ss)\<lparr>ss_messages := Some (ms1 @ [assistant_message r])\<rparr>,
         fst (display_messages p (messages_of ss)) @
           [UiChat ''user'' (PyStr u), UiChat ''assistant'' r]))"
proof -
  from inv conf have "list_all (stored_msg p) (messages_of ss)"
    by (simp add: session_inv_def wf_conv_def)
  with conf cl ev show ?thesis
    by (simp add: run_script_no_button [OF sel ev(1)] main_block_chat)
qed

lemma reachable_run: "reachable ss \<Longrightarrow> reachable (fst (run_script v ev ss))"
  by (erule reachable.step) (rule session_step.run)

end
