(* ===== verification/Runtime.thy ===== *)
theory Runtime
  imports Session
begin

text \<open>
  The Streamlit runtime around the script, as far as the script relies on it. A run that
  ends in \<open>st.rerun()\<close> (line 53) is followed by another run of the whole script with
  the same widget values, the button no longer clicked and the chat input consumed
  (\<open>rerun_event\<close>), and the runtime keeps rerunning while a run ends in
  \<open>st.rerun()\<close>: \<open>rerun_loop\<close>, a \<open>partial_function (option)\<close> whose \<open>None\<close> is a
  rerun loop that never settles. A session is a sequence of interactions, each a run
  against its own vendor behaviour: \<open>run_events\<close>. This theory shows that the rerun
  loop settles after at most two passes, with the result \<open>run_script\<close> computes; that
  the history grows by at most two messages per interaction; and that from every
  reachable state two interactions (set a key, ask) get a reply.
\<close>

section \<open>The rerun loop (line 53)\<close>

partial_function (option) rerun_loop ::
  "vendor \<Rightarrow> event \<Rightarrow> session \<Rightarrow> (session \<times> ui list) option" where
  "rerun_loop v ev ss =
     (case script_pass v ev ss of
        (ss1, out1, rerun) \<Rightarrow> if rerun then rerun_loop v (rerun_event ev) ss1 else Some (ss1, out1))"

section \<open>Sequences of runs\<close>

text \<open>
  A session is a sequence of runs; each run may meet a different vendor behaviour.
  \<open>is_ask p k\<close> holds of a run that submits a non-empty prompt without clicking the
  button, with a select box value that resolves and a client that can be constructed.
\<close>

fun run_events :: "(vendor \<times> event) list \<Rightarrow> session \<Rightarrow> session" where
  "run_events [] ss = ss"
| "run_events ((v, ev) # rest) ss = run_events rest (fst (run_script v ev ss))"

definition is_ask :: "string \<Rightarrow> string \<Rightarrow> vendor \<times> event \<Rightarrow> bool" where
  "is_ask p k ve =
     (case ve of (v, ev) \<Rightarrow>
        (case init_client v p k of Inr _ \<Rightarrow> True | Inl _ \<Rightarrow> False) \<and>
        (case select_provider (ev_name ev) of Inr _ \<Rightarrow> True | Inl _ \<Rightarrow> False) \<and>
        \<not> ev_button ev \<and>
        (case ev_chat ev of Some u \<Rightarrow> u \<noteq> [] | None \<Rightarrow> False))"

definition set_key_event :: "string \<Rightarrow> string \<Rightarrow> event" where
  "set_key_event n k = \<lparr>ev_name = n, ev_key = k, ev_button = True, ev_chat = None\<rparr>"

definition ask_event :: "string \<Rightarrow> string \<Rightarrow> string \<Rightarrow> event" where
  "ask_event n k u = \<lparr>ev_name = n, ev_key = k, ev_button = False, ev_chat = Some u\<rparr>"

lemma run_script_ask_step:
  assumes inv: "session_inv ss" and conf: "ss_provider ss = Some p" "ss_api_key ss = Some k"
    and ask: "is_ask p k (v, ev)"
  obtains um am where
    "messages_of (fst (run_script v ev ss)) = messages_of ss @ [um, am]"
    "msg_role um = ''user''" "msg_role am = ''assistant''"
    "ss_provider (fst (run_script v ev ss)) = Some p" "ss_api_key (fst (run_script v ev ss)) = Some k"
proof -
  have reg: "registered p" using inv conf by (simp add: session_inv_def)
  from ask obtain cl q u where cl: "init_client v p k = Inr cl" and q: "select_provider (ev_name ev) = Inr q"
    and ev: "\<not> ev_button ev" "ev_chat ev = Some u" "u \<noteq> []"
    by (auto simp: is_ask_def split: sum.splits option.splits)
  from init_client_registered [OF reg cl] obtain c where "cl = Some c" by blast
  with cl have c: "init_client v p k = Inr (Some c)" by simp
  show ?thesis
    using that run_script_ask [OF inv conf c q ev] conf by (simp add: Let_def messages_of_def py_simps)
qed

text \<open>
  C2: a sequence of n asks in a configured session extends the history by exactly 2n
  messages, a user message followed by its assistant message for each ask, in order.
\<close>

theorem asks_grow_by_two:
  "session_inv ss \<Longrightarrow> ss_provider ss = Some p \<Longrightarrow> ss_api_key ss = Some k \<Longrightarrow>
   list_all (is_ask p k) trace \<Longrightarrow>
   \<exists>xs. messages_of (run_events trace ss) = messages_of ss @ xs \<and>
        length xs = 2 * length trace \<and> alternating xs"
proof (induction trace arbitrary: ss)
  case Nil
  then show ?case by simp
next
  case (Cons ve trace)
  obtain v ev where ve: "ve = (v, ev)" by (cases ve)
  let ?ss1 = "fst (run_script v ev ss)"
  from Cons.prems ve obtain um am where
    step: "messages_of ?ss1 = messages_of ss @ [um, am]" "msg_role um = ''user''"
      "msg_role am = ''assistant''" "ss_provider ?ss1 = Some p" "ss_api_key ?ss1 = Some k"
    by (auto elim: run_script_ask_step)
  have "session_inv ?ss1" using Cons.prems(1) by (rule run_script_inv)
  with step(4,5) Cons.prems(4) obtain xs where
    "messages_of (run_events trace ?ss1) = messages_of ?ss1 @ xs" "length xs = 2 * length trace"
    "alternating xs"
    using Cons.IH by auto
  with step ve show ?case
    by (intro exI [of _ "um # am # xs"]) simp
qed

theorem asks_grow_by_two_witness:
  "let ss = \<lparr>ss_api_key = Some ''sk'', ss_provider = Some openai, ss_messages = Some []\<rparr>;
       v = \<lparr>construct = (\<lambda>_ _. None), call = (\<lambda>_ _. Inr (ChatCompletion [PyStr ''ok'']))\<rparr>;
       trace = [(v, \<lparr>ev_name = ''OpenAI'', ev_key = ''sk'', ev_button = False, ev_chat = Some ''a''\<rparr>),
                (v, \<lparr>ev_name = ''OpenAI'', ev_key = ''sk'', ev_button = False, ev_chat = Some ''b''\<rparr>)]
   in session_inv ss \<and> ss_provider ss = Some openai \<and> ss_api_key ss = Some ''sk'' \<and>
      list_all (is_ask openai ''sk'') trace \<and>
      (\<exists>xs. messages_of (run_events trace ss) = messages_of ss @ xs \<and>
            length xs = 2 * length trace \<and> alternating xs)"
proof -
  let ?ss = "\<lparr>ss_api_key = Some ''sk'', ss_provider = Some openai, ss_messages = Some []\<rparr>"
  let ?v = "\<lparr>construct = (\<lambda>_ _. None), call = (\<lambda>_ _. Inr (ChatCompletion [PyStr ''ok'']))\<rparr>"
  let ?t = "[(?v, \<lparr>ev_name = ''OpenAI'', ev_key = ''sk'', ev_button = False, ev_chat = Some ''a''\<rparr>),
             (?v, \<lparr>ev_name = ''OpenAI'', ev_key = ''sk'', ev_button = False, ev_chat = Some ''b''\<rparr>)]"
  have h: "session_inv ?ss" "ss_provider ?ss = Some openai" "ss_api_key ?ss = Some ''sk''"
    "list_all (is_ask openai ''sk'') ?t"
    by (simp_all add: session_inv_def messages_of_def registered_iff is_ask_def init_client_def
        make_client_def select_provider_def py_getitem_def providers_def)
  show ?thesis unfolding Let_def using asks_grow_by_two [OF h] h by blast
qed

section \<open>Settling of the rerun loop\<close>

lemma script_pass_rerun_event:
  "\<not> snd (snd (script_pass v (rerun_event ev) ss))"
proof (cases "select_provider (ev_name ev)")
  case (Inl e)
  then show ?thesis by (simp add: script_pass_def rerun_event_def)
next
  case (Inr p)
  then show ?thesis by (simp add: script_pass_Inr [OF sidebar_rerun_event [OF Inr]])
qed

text \<open>
  C13: the runtime's rerun loop settles: a run that ends in \<open>st.rerun()\<close> is followed by
  exactly one more pass, which never reruns, and the loop's result is \<open>run_script\<close>'s.
\<close>

theorem rerun_loop_settles:
  "rerun_loop v ev ss = Some (run_script v ev ss)"
proof -
  obtain ss1 out1 rerun where p1: "script_pass v ev ss = (ss1, out1, rerun)"
    by (cases "script_pass v ev ss") auto
  obtain ss2 out2 where p2: "script_pass v (rerun_event ev) ss1 = (ss2, out2, False)"
    using script_pass_rerun_event [of v ev ss1] by (cases "script_pass v (rerun_event ev) ss1") auto
  have "rerun_loop v (rerun_event ev) ss1 = Some (ss2, out2)"
    by (subst rerun_loop.simps) (simp add: p2)
  then show ?thesis
    by (subst rerun_loop.simps) (simp add: p1 run_script_def p2)
qed

section \<open>Runs of a session\<close>

lemma run_events_append [simp]:
  "run_events (xs @ ys) ss = run_events ys (run_events xs ss)"
proof (induction xs arbitrary: ss)
  case Nil
  then show ?case by simp
next
  case (Cons ve xs)
  then show ?case by (cases ve) simp
qed

section \<open>Bounds on the history\<close>

lemma run_script_length:
  "length (messages_of (fst (run_script v ev ss))) \<le> length (messages_of ss) + 2"
proof (cases rule: run_script_cases [of ev v ss])
  case (key_error e)
  then show ?thesis by simp
next
  case (set_key q)
  then show ?thesis by (simp add: empty_session_def messages_of_def)
next
  case main
  then show ?thesis
    using main_block_shape [of v ev "init_messages ss"] chat_turn_length
    by (auto simp: messages_of_def)
qed

text \<open>
  C14: whatever the events and the vendors, each interaction adds at most two messages
  to the history: after n interactions it has grown by at most 2n.
\<close>

theorem history_length_bound:
  "length (messages_of (run_events tr ss)) \<le> length (messages_of ss) + 2 * length tr"
proof (induction tr arbitrary: ss)
  case Nil
  then show ?case by simp
next
  case (Cons ve tr)
  obtain v ev where ve: "ve = (v, ev)" by (cases ve)
  have "length (messages_of (run_events tr (fst (run_script v ev ss))))
          \<le> length (messages_of (fst (run_script v ev ss))) + 2 * length tr"
    by (rule Cons.IH)
  with run_script_length [of v ev ss] ve show ?case by simp
qed

section \<open>Progress\<close>

lemma init_client_constructs:
  "registered p \<Longrightarrow> \<forall>lib. construct v lib k = None \<Longrightarrow> \<exists>c. init_client v p k = Inr (Some c)"
  by (auto simp: init_client_def make_client_def registered_iff)

text \<open>
  C12: from every reachable state the user can get a reply: setting a non-empty key for
  an offered provider whose client can be constructed and then asking a non-empty
  question leaves the history kept (same provider) or cleared (another provider),
  followed by the question and the reply.
\<close>

theorem reachable_can_chat:
  assumes r: "reachable ss" and sel: "select_provider n = Inr p" and k: "k \<noteq> []"
    and u: "u \<noteq> []" and ok: "\<forall>lib. construct v lib k = None"
  shows "\<exists>r. messages_of (run_events [(v, set_key_event n k), (v, ask_event n k u)] ss) =
           (if ss_provider ss = Some p then messages_of ss else []) @
             [user_message p u, assistant_message r]"
proof -
  let ?ss1 = "fst (run_script v (set_key_event n k) ss)"
  have inv: "session_inv ss" using r by (rule reachable_inv)
  have ss1: "?ss1 = init_messages ((if ss_provider ss \<noteq> None \<and> ss_provider ss \<noteq> Some p
                                     then empty_session else ss)
                                   \<lparr>ss_api_key := Some k, ss_provider := Some p\<rparr>)"
    using sel k by (simp add: run_script_set_key set_key_event_def)
  have inv1: "session_inv ?ss1" using inv by (rule run_script_inv)
  have reg: "registered p" using sel by (rule select_provider_Inr_registered)
  obtain c where c: "init_client v p k = Inr (Some c)"
    using init_client_constructs [OF reg ok] by blast
  have old: "messages_of ?ss1 = (if ss_provider ss = Some p then messages_of ss else [])"
    using inv by (auto simp: ss1 session_inv_def empty_session_def messages_of_def split: option.splits)
  have "ss_provider ?ss1 = Some p" "ss_api_key ?ss1 = Some k" by (simp_all add: ss1)
  from run_script_ask [OF inv1 this c, of "ask_event n k u" p u] sel u old
  show ?thesis by (auto simp: ask_event_def Let_def messages_of_def)
qed

theorem reachable_can_chat_witness:
  "let v = \<lparr>construct = (\<lambda>_ _. None), call = (\<lambda>_ _. Inr (ChatCompletion [PyStr ''a'']))\<rparr>
   in reachable empty_session \<and> select_provider ''Groq'' = Inr groq \<and> ''gsk'' \<noteq> [] \<and>
      ''q'' \<noteq> [] \<and> (\<forall>lib. construct v lib ''gsk'' = None) \<and>
      (\<exists>r. messages_of (run_events [(v, set_key_event ''Groq'' ''gsk''),
                                     (v, ask_event ''Groq'' ''gsk'' ''q'')] empty_session) =
            (if ss_provider empty_session = Some groq then messages_of empty_session else []) @
              [user_message groq ''q'', assistant_message r])"
proof -
  let ?v = "\<lparr>construct = (\<lambda>_ _. None), call = (\<lambda>_ _. Inr (ChatCompletion [PyStr ''a'']))\<rparr>"
  have h: "reachable empty_session" "select_provider ''Groq'' = Inr groq" "''gsk'' \<noteq> []"
    "''q'' \<noteq> []" "\<forall>lib. construct ?v lib ''gsk'' = None"
    by (simp_all add: reachable.start select_provider_def py_getitem_def providers_def)
  show ?thesis using reachable_can_chat [OF h] h by (simp add: Let_def)
qed

end
