(* ===== verification/Widgets.thy ===== *)
theory Widgets
  imports Runtime
begin

text \<open>
  The widgets of the page, as the Streamlit runtime keeps them. The select box of line 36
  and the password input of line 39 hold a value across runs: the select box starts on
  its first option and offers only the registry's names, the text input starts empty.
  The button of line 41 is true only in the run its click triggers, and
  \<open>st.chat_input\<close> (line 122) returns a prompt only in the run its submission triggers.
  A user action changes the widgets and triggers one run of the script with  the values
  the widgets then hold: \<open>action_event\<close> is the event of that run, \<open>step_action\<close> the
  run, \<open>interact\<close> a sequence of actions. The password input has no \<open>key=\<close> and its
  label names the selected provider (line 39), so Streamlit identifies it by that label:
  choosing another provider renders a new, empty input. The theory shows that a user
  who never touches the select box talks to Gemini, and that after a switch of provider
  the old key is not applied to the new one.
\<close>

record widgets =
  w_name :: string    \<comment> \<open>the value of \<open>st.selectbox\<close>, line 36\<close>
  w_key :: string     \<comment> \<open>the value of \<open>st.text_input\<close>, line 39\<close>

definition initial_widgets :: widgets where
  "initial_widgets = \<lparr>w_name = hd provider_names, w_key = []\<rparr>"

datatype action =
    Select string     \<comment> \<open>choose an option of the select box\<close>
  | TypeKey string    \<comment> \<open>enter a key in the password input\<close>
  | Click             \<comment> \<open>click Set API Key\<close>
  | Submit string     \<comment> \<open>submit a prompt in the chat input\<close>

text \<open>
  The select box accepts only the options it offers; a new option gives the password
  input a new label, hence a new widget whose value is empty.
\<close>

fun action_widgets :: "action \<Rightarrow> widgets \<Rightarrow> widgets" where
  "action_widgets (Select n) w =
     (if n \<in> set provider_names \<and> n \<noteq> w_name w then \<lparr>w_name = n, w_key = []\<rparr> else w)"
| "action_widgets (TypeKey k) w = w\<lparr>w_key := k\<rparr>"
| "action_widgets Click w = w"
| "action_widgets (Submit u) w = w"

text \<open>What the widget calls return in the run an action triggers, given the widgets after it.\<close>

fun action_event :: "action \<Rightarrow> widgets \<Rightarrow> event" where
  "action_event Click w = \<lparr>ev_name = w_name w, ev_key = w_key w, ev_button = True, ev_chat = None\<rparr>"
| "action_event (Submit u) w = \<lparr>ev_name = w_name w, ev_key = w_key w, ev_button = False, ev_chat = Some u\<rparr>"
| "action_event a w = \<lparr>ev_name = w_name w, ev_key = w_key w, ev_button = False, ev_chat = None\<rparr>"

definition step_action :: "vendor \<Rightarrow> action \<Rightarrow> widgets \<times> session \<Rightarrow> widgets \<times> session" where
  "step_action v a ws =
     (case ws of (w, ss) \<Rightarrow>
        (let w' = action_widgets a w in (w', fst (run_script v (action_event a w') ss))))"

fun interact :: "(vendor \<times> action) list \<Rightarrow> widgets \<times> session \<Rightarrow> widgets \<times> session" where
  "interact [] ws = ws"
| "interact ((v, a) # rest) ws = interact rest (step_action v a ws)"

section \<open>Widget values\<close>

definition offered :: "widgets \<Rightarrow> bool" where
  "offered w \<longleftrightarrow> w_name w \<in> set provider_names"

lemma offered_initial [simp]: "offered initial_widgets"
  by (simp add: offered_def initial_widgets_def provider_names_def providers_def)

lemma offered_action [simp]: "offered w \<Longrightarrow> offered (action_widgets a w)"
  by (cases a) (simp_all add: offered_def)

lemma action_event_name [simp]: "ev_name (action_event a w) = w_name w"
  by (cases a) simp_all

lemma offered_interact:
  "offered w \<Longrightarrow> offered (fst (interact tr (w, ss)))"
proof (induction tr arbitrary: w ss)
  case Nil
  then show ?case by simp
next
  case (Cons va tr)
  then show ?case by (cases va) (simp add: step_action_def Let_def)
qed

text \<open>The run of each action, for a select box value the registry offers.\<close>

lemma run_script_quiet:
  assumes "n \<in> set provider_names"
  shows "fst (run_script v \<lparr>ev_name = n, ev_key = k, ev_button = False, ev_chat = None\<rparr> ss) =
         init_messages ss"
proof -
  from assms obtain q where "select_provider n = Inr q"
    by (auto simp: select_provider_offered [symmetric])
  then show ?thesis by (simp add: run_script_no_button main_block_no_prompt)
qed

lemma step_select:
  "offered w \<Longrightarrow> step_action v (Select n) (w, ss) = (action_widgets (Select n) w, init_messages ss)"
  by (auto simp: step_action_def offered_def run_script_quiet)

lemma step_type:
  "offered w \<Longrightarrow> step_action v (TypeKey k) (w, ss) = (w\<lparr>w_key := k\<rparr>, init_messages ss)"
  by (simp add: step_action_def offered_def run_script_quiet)

lemma step_click:
  "step_action v Click (w, ss) =
     (w, fst (run_script v \<lparr>ev_name = w_name w, ev_key = w_key w, ev_button = True, ev_chat = None\<rparr> ss))"
  by (simp add: step_action_def)

lemma step_submit:
  "step_action v (Submit u) (w, ss) =
     (w, fst (run_script v \<lparr>ev_name = w_name w, ev_key = w_key w, ev_button = False, ev_chat = Some u\<rparr> ss))"
  by (simp add: step_action_def)


text \<open>
  A click on Set API Key right after choosing another provider is rejected: the new
  password input is empty, so the sidebar reports "API key is required." (line 43), and
  the key typed for the previous provider is never stored for the new one.
\<close>

lemma step_click_empty:
  "offered w \<Longrightarrow> w_key w = [] \<Longrightarrow> step_action v Click (w, ss) = (w, init_messages ss)"
proof -
  assume "offered w" "w_key w = []"
  moreover from \<open>offered w\<close> obtain q where "select_provider (w_name w) = Inr q"
    by (auto simp: offered_def select_provider_offered [symmetric])
  ultimately show ?thesis
    by (simp add: step_click run_script_main main_block_no_prompt)
qed
text \<open>
  C28: the select box's default is the registry's first entry. A user who, on a fresh
  page and without touching the select box, types a non-empty key, clicks Set API Key
  and asks a non-empty question talks to Gemini: the session holds the key, Gemini, and
  the question followed by the reply.
\<close>

theorem default_provider_chat:
  assumes k: "k \<noteq> []" and u: "u \<noteq> []" and ok: "\<forall>lib. construct v lib k = None"
  shows "\<exists>r. snd (interact [(v, TypeKey k), (v, Click), (v, Submit u)] (initial_widgets, empty_session)) =
    \<lparr>ss_api_key = Some k, ss_provider = Some gemini,
     ss_messages = Some [user_message gemini u, assistant_message r]\<rparr>"
proof -
  let ?n = "''Google Gemini''"
  let ?ss1 = "\<lparr>ss_api_key = Some k, ss_provider = Some gemini, ss_messages = Some []\<rparr>"
  have n: "w_name initial_widgets = ?n"
    by (simp add: initial_widgets_def provider_names_def providers_def)
  have sel: "select_provider ?n = Inr gemini"
    by (simp add: select_provider_def py_getitem_def providers_def)
  have "interact [(v, TypeKey k), (v, Click)] (initial_widgets, empty_session) =
        (initial_widgets\<lparr>w_key := k\<rparr>, ?ss1)"
    using k sel n
    by (simp add: step_type step_click run_script_set_key empty_session_def init_messages_def)
  moreover have inv: "session_inv ?ss1"
    by (simp add: session_inv_def messages_of_def registered_iff k)
  moreover obtain c where c: "init_client v gemini k = Inr (Some c)"
    using init_client_constructs [of gemini v k] ok by (auto simp: registered_iff)
  ultimately show ?thesis
    using run_script_ask [OF inv _ _ c, of "\<lparr>ev_name = ?n, ev_key = k, ev_button = False, ev_chat = Some u\<rparr>" gemini u]
      sel n u
    by (auto simp: step_submit Let_def messages_of_def init_messages_def)
qed

theorem default_provider_chat_witness:
  "let v = \<lparr>construct = (\<lambda>_ _. None), call = (\<lambda>_ _. Inr (GenerateContentResponse ''Hi''))\<rparr>
   in ''gk'' \<noteq> [] \<and> ''hello'' \<noteq> [] \<and> (\<forall>lib. construct v lib ''gk'' = None) \<and>
      (\<exists>r. snd (interact [(v, TypeKey ''gk''), (v, Click), (v, Submit ''hello'')]
                        (initial_widgets, empty_session)) =
           \<lparr>ss_api_key = Some ''gk'', ss_provider = Some gemini,
            ss_messages = Some [user_message gemini ''hello'', assistant_message r]\<rparr>)"
proof -
  let ?v = "\<lparr>construct = (\<lambda>_ _. None), call = (\<lambda>_ _. Inr (GenerateContentResponse ''Hi''))\<rparr>"
  have h: "''gk'' \<noteq> []" "''hello'' \<noteq> []" "\<forall>lib. construct ?v lib ''gk'' = None" by simp_all
  show ?thesis using default_provider_chat [OF h] h by (simp add: Let_def)
qed

text \<open>
  C29: the key input belongs to the selected provider. Choosing a different provider in
  the select box and clicking Set API Key without typing a new key leaves the session as
  it was (only its history initialised) and the input empty: a key typed for one
  provider is never set for another.
\<close>

theorem switch_needs_new_key:
  assumes "offered w" and "n \<in> set provider_names" and "n \<noteq> w_name w"
  shows "interact [(v, Select n), (v', Click)] (w, ss) = (\<lparr>w_name = n, w_key = []\<rparr>, init_messages ss)"
proof -
  have w': "offered \<lparr>w_name = n, w_key = []\<rparr>" using assms(2) by (simp add: offered_def)
  from assms show ?thesis by (simp add: step_select step_click_empty [OF w'])
qed

theorem switch_needs_new_key_witness:
  "let w = \<lparr>w_name = ''OpenAI'', w_key = ''sk-openai''\<rparr>;
       v = \<lparr>construct = (\<lambda>_ _. None), call = (\<lambda>_ _. Inr (Message [''ok'']))\<rparr>;
       ss = \<lparr>ss_api_key = Some ''sk-openai'', ss_provider = Some openai, ss_messages = Some []\<rparr>
   in offered w \<and> ''Anthropic (Claude)'' \<in> set provider_names \<and> ''Anthropic (Claude)'' \<noteq> w_name w \<and>
      interact [(v, Select ''Anthropic (Claude)''), (v, Click)] (w, ss) =
        (\<lparr>w_name = ''Anthropic (Claude)'', w_key = []\<rparr>, ss)"
proof -
  let ?w = "\<lparr>w_name = ''OpenAI'', w_key = ''sk-openai''\<rparr>"
  let ?v = "\<lparr>construct = (\<lambda>_ _. None), call = (\<lambda>_ _. Inr (Message [''ok'']))\<rparr>"
  let ?ss = "\<lparr>ss_api_key = Some ''sk-openai'', ss_provider = Some openai, ss_messages = Some []\<rparr>"
  have h: "offered ?w" "''Anthropic (Claude)'' \<in> set provider_names" "''Anthropic (Claude)'' \<noteq> w_name ?w"
    by (simp_all add: offered_def provider_names_def providers_def)
  show ?thesis
    using switch_needs_new_key [OF h, of ?v ?v ?ss] h by (simp add: Let_def init_messages_def)
qed

end
