(* ===== verification/Session_Props.thy ===== *)
theory Session_Props
  imports Session
begin

text \<open>
  The properties of the session controller, stated over the script's runs
  (\<open>run_script\<close>), the step relation and the reachable states of theory \<open>Session\<close>:
  what one chat turn stores, how errors become replies, what the sidebar does to the
  selection and the history, the invariant of every reachable state and the user-led
  shape of its history, what a run Streamlit stops leaves, and the transcript and its
  error path.
\<close>

section \<open>Properties of a run\<close>

text \<open>
  C1: asking in a configured session appends exactly two messages to the history, the
  user's message for the prompt and then the assistant's message carrying whatever
  \<open>get_model_response\<close> returned for the history including the new user message.
\<close>

theorem run_script_chat:
  assumes "session_inv ss" "ss_provider ss = Some p" "ss_api_key ss = Some k"
    "init_client v p k = Inr (Some c)" "select_provider (ev_name ev) = Inr q"
    "\<not> ev_button ev" "ev_chat ev = Some u" "u \<noteq> []"
  shows "messages_of (fst (run_script v ev ss)) =
     messages_of ss @
       [user_message p u,
        assistant_message (get_model_response v c p (messages_of ss @ [user_message p u])
                                                  (messages_of ss @ [user_message p u]))]"
  using run_script_ask [OF assms] by (simp add: Let_def messages_of_def)

theorem run_script_chat_witness:
  "let ss = \<lparr>ss_api_key = Some ''sk-test'', ss_provider = Some openai, ss_messages = Some []\<rparr>;
       v = \<lparr>construct = (\<lambda>_ _. None), call = (\<lambda>_ _. Inr (ChatCompletion [PyStr ''Hi there'']))\<rparr>;
       ev = \<lparr>ev_name = ''OpenAI'', ev_key = ''sk-test'', ev_button = False, ev_chat = Some ''Hello''\<rparr>
   in session_inv ss \<and> ss_provider ss = Some openai \<and> ss_api_key ss = Some ''sk-test'' \<and>
      init_client v openai ''sk-test'' = Inr (Some (Client ''OpenAI'' ''sk-test'')) \<and>
      select_provider (ev_name ev) = Inr openai \<and> \<not> ev_button ev \<and>
      ev_chat ev = Some ''Hello'' \<and> ''Hello'' \<noteq> [] \<and>
      messages_of (fst (run_script v ev ss)) =
        [user_message openai ''Hello'', assistant_message (PyStr ''Hi there'')]"
proof -
  let ?ss = "\<lparr>ss_api_key = Some ''sk-test'', ss_provider = Some openai, ss_messages = Some []\<rparr>"
  let ?v = "\<lparr>construct = (\<lambda>_ _. None), call = (\<lambda>_ _. Inr (ChatCompletion [PyStr ''Hi there'']))\<rparr>"
  let ?ev = "\<lparr>ev_name = ''OpenAI'', ev_key = ''sk-test'', ev_button = False, ev_chat = Some ''Hello''\<rparr>"
  have h: "session_inv ?ss" "ss_provider ?ss = Some openai" "ss_api_key ?ss = Some ''sk-test''"
    "init_client ?v openai ''sk-test'' = Inr (Some (Client ''OpenAI'' ''sk-test''))"
    "select_provider (ev_name ?ev) = Inr openai" "\<not> ev_button ?ev" "ev_chat ?ev = Some ''Hello''"
    "''Hello'' \<noteq> []"
    by (simp_all add: session_inv_def messages_of_def registered_iff init_client_def make_client_def
        select_provider_def py_getitem_def providers_def)
  have "messages_of (fst (run_script ?v ?ev ?ss)) =
        [user_message openai ''Hello'',
         assistant_message (get_model_response ?v (Client ''OpenAI'' ''sk-test'') openai
           [user_message openai ''Hello''] [user_message openai ''Hello''])]"
    using run_script_chat [OF h] by (simp add: messages_of_def)
  moreover have "get_model_response ?v (Client ''OpenAI'' ''sk-test'') openai
           [user_message openai ''Hello''] [user_message openai ''Hello''] = PyStr ''Hi there''"
    by (simp add: get_model_response_def model_defs py_simps get_content_def)
  ultimately show ?thesis using h by (simp add: Let_def)
qed

text \<open>
  C3: when every vendor call raises \<open>e\<close>, the turn still completes: the assistant
  message is the text \<open>"An error occurred: "\<close> followed by \<open>str(e)\<close>, and it is the last
  thing rendered; no exception leaves the run.
\<close>

theorem run_script_call_fails:
  assumes "session_inv ss" "ss_provider ss = Some p" "ss_api_key ss = Some k"
    "init_client v p k = Inr (Some c)" "select_provider (ev_name ev) = Inr q"
    "\<not> ev_button ev" "ev_chat ev = Some u" "u \<noteq> []"
    and fails: "\<forall>req. call v c req = Inl e"
  shows "messages_of (fst (run_script v ev ss)) =
           messages_of ss @ [user_message p u,
                             assistant_message (PyStr (''An error occurred: '' @ exc_str e))] \<and>
         last (snd (run_script v ev ss)) =
           UiChat ''assistant'' (PyStr (''An error occurred: '' @ exc_str e))"
proof -
  have reg: "registered p" and wf: "list_all (stored_msg p) (messages_of ss)"
    using assms(1-3) by (simp_all add: session_inv_def wf_conv_def)
  have "get_model_response v c p (messages_of ss @ [user_message p u])
          (messages_of ss @ [user_message p u]) = PyStr (error_reply e)"
    using reply_call_fails [OF reg wf refl fails] .
  then show ?thesis
    using run_script_ask [OF assms(1-8)] by (simp add: Let_def messages_of_def error_reply_def)
qed

theorem run_script_call_fails_witness:
  "let ss = \<lparr>ss_api_key = Some ''sk-test'', ss_provider = Some openai, ss_messages = Some []\<rparr>;
       v = \<lparr>construct = (\<lambda>_ _. None), call = (\<lambda>_ _. Inl (VendorError ''quota exceeded''))\<rparr>;
       ev = \<lparr>ev_name = ''OpenAI'', ev_key = ''sk-test'', ev_button = False, ev_chat = Some ''x''\<rparr>
   in session_inv ss \<and> ss_provider ss = Some openai \<and> ss_api_key ss = Some ''sk-test'' \<and>
      init_client v openai ''sk-test'' = Inr (Some (Client ''OpenAI'' ''sk-test'')) \<and>
      select_provider (ev_name ev) = Inr openai \<and> \<not> ev_button ev \<and>
      ev_chat ev = Some ''x'' \<and> ''x'' \<noteq> [] \<and>
      (\<forall>req. call v (Client ''OpenAI'' ''sk-test'') req = Inl (VendorError ''quota exceeded'')) \<and>
      messages_of (fst (run_script v ev ss)) =
        [user_message openai ''x'', assistant_message (PyStr ''An error occurred: quota exceeded'')] \<and>
      last (snd (run_script v ev ss)) = UiChat ''assistant'' (PyStr ''An error occurred: quota exceeded'')"
proof -
  let ?ss = "\<lparr>ss_api_key = Some ''sk-test'', ss_provider = Some openai, ss_messages = Some []\<rparr>"
  let ?v = "\<lparr>construct = (\<lambda>_ _. None), call = (\<lambda>_ _. Inl (VendorError ''quota exceeded''))\<rparr>"
  let ?ev = "\<lparr>ev_name = ''OpenAI'', ev_key = ''sk-test'', ev_button = False, ev_chat = Some ''x''\<rparr>"
  have h: "session_inv ?ss" "ss_provider ?ss = Some openai" "ss_api_key ?ss = Some ''sk-test''"
    "init_client ?v openai ''sk-test'' = Inr (Some (Client ''OpenAI'' ''sk-test''))"
    "select_provider (ev_name ?ev) = Inr openai" "\<not> ev_button ?ev" "ev_chat ?ev = Some ''x''"
    "''x'' \<noteq> []" "\<forall>req. call ?v (Client ''OpenAI'' ''sk-test'') req = Inl (VendorError ''quota exceeded'')"
    by (simp_all add: session_inv_def messages_of_def registered_iff init_client_def make_client_def
        select_provider_def py_getitem_def providers_def)
  show ?thesis using run_script_call_fails [OF h] h by (simp add: messages_of_def Let_def)
qed

text \<open>
  C4: setting a key for a provider other than the configured one clears the session:
  after the run (and its rerun) the history is empty and the new provider and key are set.
\<close>

theorem switch_provider_clears:
  "ss_provider ss = Some q \<Longrightarrow> select_provider (ev_name ev) = Inr p \<Longrightarrow> p \<noteq> q \<Longrightarrow>
   ev_button ev \<Longrightarrow> ev_key ev \<noteq> [] \<Longrightarrow>
   fst (run_script v ev ss) =
     \<lparr>ss_api_key = Some (ev_key ev), ss_provider = Some p, ss_messages = Some []\<rparr>"
  by (simp add: run_script_set_key empty_session_def init_messages_def)

theorem switch_provider_clears_witness:
  "let v = \<lparr>construct = (\<lambda>_ _. None), call = (\<lambda>_ _. Inl IndexError)\<rparr>;
       ss = \<lparr>ss_api_key = Some ''sk'', ss_provider = Some openai,
             ss_messages = Some [user_message openai ''a'', assistant_message (PyStr ''b'')]\<rparr>;
       ev = \<lparr>ev_name = ''Cohere'', ev_key = ''co'', ev_button = True, ev_chat = None\<rparr>
   in ss_provider ss = Some openai \<and> select_provider (ev_name ev) = Inr cohere \<and>
      cohere \<noteq> openai \<and> ev_button ev \<and> ev_key ev \<noteq> [] \<and>
      fst (run_script v ev ss) = \<lparr>ss_api_key = Some ''co'', ss_provider = Some cohere, ss_messages = Some []\<rparr>"
proof -
  let ?v = "\<lparr>construct = (\<lambda>_ _. None), call = (\<lambda>_ _. Inl IndexError)\<rparr>"
  let ?ss = "\<lparr>ss_api_key = Some ''sk'', ss_provider = Some openai,
             ss_messages = Some [user_message openai ''a'', assistant_message (PyStr ''b'')]\<rparr>"
  let ?ev = "\<lparr>ev_name = ''Cohere'', ev_key = ''co'', ev_button = True, ev_chat = None\<rparr>"
  have h: "ss_provider ?ss = Some openai" "select_provider (ev_name ?ev) = Inr cohere"
    "cohere \<noteq> openai" "ev_button ?ev" "ev_key ?ev \<noteq> []"
    by (simp_all add: select_provider_def py_getitem_def providers_def)
  show ?thesis using switch_provider_clears [OF h, of ?v] h by (simp add: Let_def)
qed

text \<open>
  C18: setting a new key for the provider already configured keeps the history: only
  the key changes (the spec's data model says a change of either field clears it).
\<close>

theorem same_provider_keeps_history:
  "ss_provider ss = Some p \<Longrightarrow> select_provider (ev_name ev) = Inr p \<Longrightarrow>
   ev_button ev \<Longrightarrow> ev_key ev \<noteq> [] \<Longrightarrow>
   messages_of (fst (run_script v ev ss)) = messages_of ss \<and>
   ss_api_key (fst (run_script v ev ss)) = Some (ev_key ev) \<and>
   ss_provider (fst (run_script v ev ss)) = Some p"
  by (simp add: run_script_set_key)

theorem same_provider_keeps_history_witness:
  "let v = \<lparr>construct = (\<lambda>_ _. None), call = (\<lambda>_ _. Inl IndexError)\<rparr>;
       ss = \<lparr>ss_api_key = Some ''sk'', ss_provider = Some openai,
             ss_messages = Some [user_message openai ''a'', assistant_message (PyStr ''b'')]\<rparr>;
       ev = \<lparr>ev_name = ''OpenAI'', ev_key = ''sk-new'', ev_button = True, ev_chat = None\<rparr>
   in ss_provider ss = Some openai \<and> select_provider (ev_name ev) = Inr openai \<and>
      ev_button ev \<and> ev_key ev \<noteq> [] \<and>
      messages_of (fst (run_script v ev ss)) = [user_message openai ''a'', assistant_message (PyStr ''b'')] \<and>
      ss_api_key (fst (run_script v ev ss)) = Some ''sk-new'' \<and>
      ss_provider (fst (run_script v ev ss)) = Some openai"
proof -
  let ?v = "\<lparr>construct = (\<lambda>_ _. None), call = (\<lambda>_ _. Inl IndexError)\<rparr>"
  let ?ss = "\<lparr>ss_api_key = Some ''sk'', ss_provider = Some openai,
             ss_messages = Some [user_message openai ''a'', assistant_message (PyStr ''b'')]\<rparr>"
  let ?ev = "\<lparr>ev_name = ''OpenAI'', ev_key = ''sk-new'', ev_button = True, ev_chat = None\<rparr>"
  have h: "ss_provider ?ss = Some openai" "select_provider (ev_name ?ev) = Inr openai"
    "ev_button ?ev" "ev_key ?ev \<noteq> []"
    by (simp_all add: select_provider_def py_getitem_def providers_def)
  show ?thesis using same_provider_keeps_history [OF h, of ?v] h by (simp add: messages_of_def Let_def)
qed

text \<open>
  C19: clicking the button with an empty key shows "API key is required." first and
  changes nothing but the initialisation of the history.
\<close>

theorem empty_key_rejected:
  "select_provider (ev_name ev) = Inr p \<Longrightarrow> ev_button ev \<Longrightarrow> ev_key ev = [] \<Longrightarrow>
   ev_chat ev = None \<Longrightarrow>
   fst (run_script v ev ss) = init_messages ss \<and>
   hd (snd (run_script v ev ss)) = UiError ''API key is required.''"
proof -
  assume "select_provider (ev_name ev) = Inr p" "ev_button ev" "ev_key ev = []" "ev_chat ev = None"
  then have "script_pass v ev ss = (fst (main_block v ev (init_messages ss)),
      UiError ''API key is required.'' # snd (main_block v ev (init_messages ss)), False)"
    by (simp add: script_pass_Inr [OF sidebar_empty_key])
  with \<open>ev_chat ev = None\<close> show ?thesis
    by (simp add: run_script_eq main_block_no_prompt)
qed

theorem empty_key_rejected_witness:
  "let v = \<lparr>construct = (\<lambda>_ _. None), call = (\<lambda>_ _. Inl IndexError)\<rparr>;
       ev = \<lparr>ev_name = ''Groq'', ev_key = [], ev_button = True, ev_chat = None\<rparr>
   in select_provider (ev_name ev) = Inr groq \<and> ev_button ev \<and> ev_key ev = [] \<and> ev_chat ev = None \<and>
      fst (run_script v ev empty_session) = init_messages empty_session \<and>
      hd (snd (run_script v ev empty_session)) = UiError ''API key is required.''"
proof -
  let ?v = "\<lparr>construct = (\<lambda>_ _. None), call = (\<lambda>_ _. Inl IndexError)\<rparr>"
  let ?ev = "\<lparr>ev_name = ''Groq'', ev_key = [], ev_button = True, ev_chat = None\<rparr>"
  have h: "select_provider (ev_name ?ev) = Inr groq" "ev_button ?ev" "ev_key ?ev = []" "ev_chat ?ev = None"
    by (simp_all add: select_provider_def py_getitem_def providers_def)
  show ?thesis using empty_key_rejected [OF h, of ?v empty_session] h by (simp add: Let_def)
qed

text \<open>
  C20: when constructing the client raises, the run shows only the initialisation
  error, and a submitted prompt is dropped: the history is untouched.
\<close>

theorem client_failure_keeps_history:
  "ss_api_key ss = Some k \<Longrightarrow> ss_provider ss = Some p \<Longrightarrow> init_client v p k = Inl e \<Longrightarrow>
   select_provider (ev_name ev) = Inr q \<Longrightarrow> \<not> ev_button ev \<Longrightarrow>
   run_script v ev ss = (init_messages ss, [UiError (failure_message e)])"
  by (simp add: run_script_no_button main_block_init_fails)

theorem client_failure_keeps_history_witness:
  "let ss = \<lparr>ss_api_key = Some ''bad'', ss_provider = Some anthropic, ss_messages = Some []\<rparr>;
       v = \<lparr>construct = (\<lambda>_ _. Some (VendorError ''invalid key'')), call = (\<lambda>_ _. Inl IndexError)\<rparr>;
       ev = \<lparr>ev_name = ''Anthropic (Claude)'', ev_key = ''bad'', ev_button = False, ev_chat = Some ''hi''\<rparr>
   in ss_api_key ss = Some ''bad'' \<and> ss_provider ss = Some anthropic \<and>
      init_client v anthropic ''bad'' = Inl (VendorError ''invalid key'') \<and>
      select_provider (ev_name ev) = Inr anthropic \<and> \<not> ev_button ev \<and>
      run_script v ev ss = (ss, [UiError (failure_message (VendorError ''invalid key''))])"
proof -
  let ?ss = "\<lparr>ss_api_key = Some ''bad'', ss_provider = Some anthropic, ss_messages = Some []\<rparr>"
  let ?v = "\<lparr>construct = (\<lambda>_ _. Some (VendorError ''invalid key'')), call = (\<lambda>_ _. Inl IndexError)\<rparr>"
  let ?ev = "\<lparr>ev_name = ''Anthropic (Claude)'', ev_key = ''bad'', ev_button = False, ev_chat = Some ''hi''\<rparr>"
  have h: "ss_api_key ?ss = Some ''bad''" "ss_provider ?ss = Some anthropic"
    "init_client ?v anthropic ''bad'' = Inl (VendorError ''invalid key'')"
    "select_provider (ev_name ?ev) = Inr anthropic" "\<not> ev_button ?ev"
    by (simp_all add: init_client_def make_client_def select_provider_def py_getitem_def providers_def)
  show ?thesis using client_failure_keeps_history [OF h] h by (simp add: init_messages_def Let_def)
qed

text \<open>
  C21: a well-formed history is rendered in order as one chat element per turn of the
  canonical conversation, with the role and the text, except that turns with empty text
  are not rendered.
\<close>

theorem display_transcript:
  "list_all (stored_msg p) ms \<Longrightarrow>
   display_messages p ms =
     (map (\<lambda>t. UiChat (role_name (turn_speaker t)) (PyStr (turn_text t)))
        (filter (\<lambda>t. turn_text t \<noteq> []) (map abs_msg ms)), None)"
proof -
  assume wf: "list_all (stored_msg p) ms"
  then have "map (\<lambda>t. UiChat (role_name (turn_speaker t)) (PyStr (turn_text t)))
        (filter (\<lambda>t. turn_text t \<noteq> []) (map abs_msg ms)) =
      map (\<lambda>m. UiChat (msg_role m) (PyStr (msg_text m))) (filter (\<lambda>m. msg_text m \<noteq> []) ms)"
    by (induction ms) (auto simp: stored_msg_role_name)
  with wf show ?thesis by (simp add: display_messages_wf)
qed

theorem display_transcript_witness:
  "list_all (stored_msg gemini) [user_message gemini ''Hi'', assistant_message (PyStr [])] \<and>
   display_messages gemini [user_message gemini ''Hi'', assistant_message (PyStr [])] =
     ([UiChat ''user'' (PyStr ''Hi'')], None)"
proof -
  have h: "list_all (stored_msg gemini) [user_message gemini ''Hi'', assistant_message (PyStr [])]"
    by simp
  show ?thesis using display_transcript [OF h] h by simp
qed

text \<open>
  C22: the display loop is not guarded message by message: a message whose display
  raises (a Gemini user message without \<open>parts\<close>, a message without \<open>content\<close>) stops
  the loop, the messages before it stay rendered, the ones after it are not, and the
  exception escapes to the \<open>try\<close> of line 95.
\<close>

theorem display_stops_at_error:
  assumes wf: "list_all (stored_msg p) ms1" and bad: "display_message p m = Inl e"
  shows "display_messages p (ms1 @ m # ms2) = (fst (display_messages p ms1), Some e)"
  using wf by (induction ms1) (simp_all add: bad display_message_stored case_prod_beta)

theorem display_stops_at_error_witness:
  "list_all (stored_msg gemini) [user_message gemini ''a'', assistant_message (PyStr ''b'')] \<and>
   display_message gemini (user_message openai ''c'') = Inl (KeyError ''parts'') \<and>
   display_messages gemini
     ([user_message gemini ''a'', assistant_message (PyStr ''b'')] @
      user_message openai ''c'' # [assistant_message (PyStr ''d'')]) =
     ([UiChat ''user'' (PyStr ''a''), UiChat ''assistant'' (PyStr ''b'')], Some (KeyError ''parts''))"
proof -
  have h: "list_all (stored_msg gemini) [user_message gemini ''a'', assistant_message (PyStr ''b'')]"
    "display_message gemini (user_message openai ''c'') = Inl (KeyError ''parts'')"
    by (simp_all add: display_message_def display_content_def provider_id_defs py_simps)
  show ?thesis
    using display_stops_at_error [OF h, of "[assistant_message (PyStr ''d'')]"] h
    by (simp add: display_message_def display_content_def provider_id_defs py_simps)
qed

text \<open>
  C26: a run without a button click never changes the provider or the key, even when
  the select box now shows another provider.
\<close>

theorem no_button_keeps_selection:
  "\<not> ev_button ev \<Longrightarrow>
   ss_provider (fst (run_script v ev ss)) = ss_provider ss \<and>
   ss_api_key (fst (run_script v ev ss)) = ss_api_key ss"
proof (cases "select_provider (ev_name ev)")
  case (Inl e)
  then show ?thesis by (simp add: run_script_eq script_pass_def)
next
  case (Inr q)
  moreover assume "\<not> ev_button ev"
  ultimately show ?thesis by (simp add: run_script_no_button main_block_fields)
qed

theorem no_button_keeps_selection_witness:
  "let v = \<lparr>construct = (\<lambda>_ _. None), call = (\<lambda>_ _. Inl IndexError)\<rparr>;
       ss = \<lparr>ss_api_key = Some ''sk'', ss_provider = Some openai, ss_messages = Some []\<rparr>;
       ev = \<lparr>ev_name = ''Cohere'', ev_key = ''other'', ev_button = False, ev_chat = Some ''hi''\<rparr>
   in \<not> ev_button ev \<and>
      ss_provider (fst (run_script v ev ss)) = Some openai \<and>
      ss_api_key (fst (run_script v ev ss)) = Some ''sk''"
proof -
  let ?v = "\<lparr>construct = (\<lambda>_ _. None), call = (\<lambda>_ _. Inl IndexError)\<rparr>"
  let ?ss = "\<lparr>ss_api_key = Some ''sk'', ss_provider = Some openai, ss_messages = Some []\<rparr>"
  let ?ev = "\<lparr>ev_name = ''Cohere'', ev_key = ''other'', ev_button = False, ev_chat = Some ''hi''\<rparr>"
  have h: "\<not> ev_button ?ev" by simp
  show ?thesis using no_button_keeps_selection [OF h, of ?v ?ss] h by (simp add: Let_def)
qed

text \<open>
  C27: without a configured provider a run renders only the configuration hint.
\<close>

theorem unconfigured_info:
  "ss_provider ss = None \<Longrightarrow> select_provider (ev_name ev) = Inr q \<Longrightarrow> \<not> ev_button ev \<Longrightarrow>
   run_script v ev ss =
     (init_messages ss, [UiInfo ''Please configure your API key in the sidebar to start chatting.''])"
  by (simp add: run_script_no_button main_block_unconfigured)

theorem unconfigured_info_witness:
  "let v = \<lparr>construct = (\<lambda>_ _. None), call = (\<lambda>_ _. Inl IndexError)\<rparr>;
       ev = \<lparr>ev_name = ''OpenAI'', ev_key = [], ev_button = False, ev_chat = None\<rparr>
   in ss_provider empty_session = None \<and> select_provider (ev_name ev) = Inr openai \<and> \<not> ev_button ev \<and>
      run_script v ev empty_session =
        (\<lparr>ss_api_key = None, ss_provider = None, ss_messages = Some []\<rparr>,
         [UiInfo ''Please configure your API key in the sidebar to start chatting.''])"
proof -
  let ?v = "\<lparr>construct = (\<lambda>_ _. None), call = (\<lambda>_ _. Inl IndexError)\<rparr>"
  let ?ev = "\<lparr>ev_name = ''OpenAI'', ev_key = [], ev_button = False, ev_chat = None\<rparr>"
  have h: "ss_provider empty_session = None" "select_provider (ev_name ?ev) = Inr openai" "\<not> ev_button ?ev"
    by (simp_all add: empty_session_def select_provider_def py_getitem_def providers_def)
  show ?thesis using unconfigured_info [OF h, of ?v] h
    by (simp add: init_messages_def empty_session_def Let_def)
qed

text \<open>
  C7: in every reachable session, provider and key are set together, the provider is
  registered and the key is not empty, and every stored message has the shape its
  provider's branch expects; without a provider the history is empty.
\<close>

theorem reachable_session_inv:
  "reachable ss \<Longrightarrow>
   (case ss_provider ss of
      None \<Rightarrow> ss_api_key ss = None \<and> messages_of ss = []
    | Some p \<Rightarrow> registered p \<and> ss_api_key ss \<noteq> None \<and> ss_api_key ss \<noteq> Some [] \<and>
                list_all (stored_msg p) (messages_of ss))"
proof -
  assume "reachable ss"
  then have inv: "session_inv ss" by (rule reachable_inv)
  show ?thesis
  proof (cases "ss_provider ss")
    case None
    with inv show ?thesis by (simp add: session_inv_def split: option.splits)
  next
    case (Some p)
    with inv show ?thesis by (auto simp: session_inv_def wf_conv_def split: option.splits)
  qed
qed

theorem reachable_session_inv_witness:
  "let v = \<lparr>construct = (\<lambda>_ _. None), call = (\<lambda>_ _. Inr (ChatCompletion [PyStr ''Hi there'']))\<rparr>;
       s = fst (run_script v
             \<lparr>ev_name = ''OpenAI'', ev_key = ''sk-test'', ev_button = True, ev_chat = None\<rparr>
             empty_session)
   in reachable s \<and> registered openai \<and> ss_provider s = Some openai \<and> ss_api_key s = Some ''sk-test''"
proof -
  let ?v = "\<lparr>construct = (\<lambda>_ _. None), call = (\<lambda>_ _. Inr (ChatCompletion [PyStr ''Hi there'']))\<rparr>"
  let ?s = "fst (run_script ?v
             \<lparr>ev_name = ''OpenAI'', ev_key = ''sk-test'', ev_button = True, ev_chat = None\<rparr>
             empty_session)"
  have r: "reachable ?s" by (rule reachable_run [OF reachable.start])
  have s: "?s = \<lparr>ss_api_key = Some ''sk-test'', ss_provider = Some openai, ss_messages = Some []\<rparr>"
    by (simp add: run_script_set_key select_provider_def py_getitem_def providers_def
        empty_session_def init_messages_def)
  show ?thesis using reachable_session_inv [OF r] r s by (simp add: Let_def)
qed

text \<open>
  C9: the history is append-only except for the clear on a provider switch: one run,
  complete or stopped by Streamlit, either extends it (possibly by nothing) or empties it
  while changing the provider.
\<close>

theorem history_append_or_clear:
  assumes "session_step ss ss'"
  shows "(\<exists>xs. messages_of ss' = messages_of ss @ xs) \<or>
         (messages_of ss' = [] \<and> ss_provider ss' \<noteq> ss_provider ss)"
proof -
  from assms have "(\<exists>v ev. ss' = fst (run_script v ev ss)) \<or> (\<exists>v ev at. ss' = stopped_run v ev at ss)"
    by (auto simp: session_step_iff)
  then show ?thesis
  proof
    assume "\<exists>v ev. ss' = fst (run_script v ev ss)"
    then obtain v ev where ss': "ss' = fst (run_script v ev ss)" by blast
    show ?thesis
    proof (cases rule: run_script_cases [of ev v ss])
      case (key_error e)
      then show ?thesis by (simp add: ss')
    next
      case (set_key q)
      then show ?thesis by (auto simp: ss' empty_session_def messages_of_def)
    next
      case main
      then show ?thesis using main_block_appends [of v ev "init_messages ss"] by (simp add: ss')
    qed
  next
    assume "\<exists>v ev at. ss' = stopped_run v ev at ss"
    then obtain v ev at where ss': "ss' = stopped_run v ev at ss" by blast
    show ?thesis
    proof (cases rule: stopped_run_cases [of v ev at ss])
      case same
      then show ?thesis by (simp add: ss')
    next
      case (sidebar ss1 out rerun)
      then show ?thesis using sidebar_messages [OF sidebar(1)] by (auto simp: ss')
    next
      case (turn out p u)
      then show ?thesis by (simp add: ss' messages_of_def)
    qed
  qed
qed

theorem history_append_or_clear_witness:
  "let ss = \<lparr>ss_api_key = Some ''sk'', ss_provider = Some openai,
             ss_messages = Some [user_message openai ''a'', assistant_message (PyStr ''b'')]\<rparr>;
       v = \<lparr>construct = (\<lambda>_ _. None), call = (\<lambda>_ _. Inl IndexError)\<rparr>;
       ev = \<lparr>ev_name = ''Cohere'', ev_key = ''co'', ev_button = True, ev_chat = None\<rparr>
   in session_step ss (fst (run_script v ev ss)) \<and>
      messages_of (fst (run_script v ev ss)) = [] \<and>
      ss_provider (fst (run_script v ev ss)) \<noteq> ss_provider ss"
proof -
  let ?ss = "\<lparr>ss_api_key = Some ''sk'', ss_provider = Some openai,
             ss_messages = Some [user_message openai ''a'', assistant_message (PyStr ''b'')]\<rparr>"
  let ?v = "\<lparr>construct = (\<lambda>_ _. None), call = (\<lambda>_ _. Inl IndexError)\<rparr>"
  let ?ev = "\<lparr>ev_name = ''Cohere'', ev_key = ''co'', ev_button = True, ev_chat = None\<rparr>"
  have h: "session_step ?ss (fst (run_script ?v ?ev ?ss))" by (rule session_step.run)
  have s: "fst (run_script ?v ?ev ?ss) =
      \<lparr>ss_api_key = Some ''co'', ss_provider = Some cohere, ss_messages = Some []\<rparr>"
    by (simp add: run_script_set_key select_provider_def py_getitem_def providers_def
        empty_session_def init_messages_def)
  show ?thesis using history_append_or_clear [OF h] h s by (simp add: Let_def messages_of_def)
qed

text \<open>
  C17: once configured, a session stays configured: no run, complete or stopped, unsets
  the provider or the key, as the spec's controller has no transition back to
  UNCONFIGURED.
\<close>

theorem configured_stays_configured:
  assumes "session_step ss ss'" "ss_provider ss \<noteq> None" "ss_api_key ss \<noteq> None"
  shows "ss_provider ss' \<noteq> None \<and> ss_api_key ss' \<noteq> None"
proof -
  from assms(1) have "(\<exists>v ev. ss' = fst (run_script v ev ss)) \<or> (\<exists>v ev at. ss' = stopped_run v ev at ss)"
    by (auto simp: session_step_iff)
  then show ?thesis
  proof
    assume "\<exists>v ev. ss' = fst (run_script v ev ss)"
    then obtain v ev where ss': "ss' = fst (run_script v ev ss)" by blast
    show ?thesis
    proof (cases rule: run_script_cases [of ev v ss])
      case (key_error e)
      with assms show ?thesis by (simp add: ss')
    next
      case (set_key q)
      then show ?thesis by (simp add: ss')
    next
      case main
      with assms show ?thesis using main_block_fields [of v ev "init_messages ss"] by (simp add: ss')
    qed
  next
    assume "\<exists>v ev at. ss' = stopped_run v ev at ss"
    then obtain v ev at where ss': "ss' = stopped_run v ev at ss" by blast
    show ?thesis
    proof (cases rule: stopped_run_cases [of v ev at ss])
      case same
      with assms show ?thesis by (simp add: ss')
    next
      case (sidebar ss1 out rerun)
      with assms show ?thesis using sidebar_fields [OF sidebar(1)] by (auto simp: ss')
    next
      case (turn out p u)
      then show ?thesis by (simp add: ss')
    qed
  qed
qed

theorem configured_stays_configured_witness:
  "let ss = \<lparr>ss_api_key = Some ''sk'', ss_provider = Some openai, ss_messages = Some []\<rparr>;
       v = \<lparr>construct = (\<lambda>_ _. Some (VendorError ''invalid key'')), call = (\<lambda>_ _. Inl IndexError)\<rparr>;
       ev = \<lparr>ev_name = ''OpenAI'', ev_key = [], ev_button = True, ev_chat = Some ''hi''\<rparr>
   in session_step ss (fst (run_script v ev ss)) \<and> ss_provider ss \<noteq> None \<and> ss_api_key ss \<noteq> None \<and>
      ss_provider (fst (run_script v ev ss)) \<noteq> None \<and> ss_api_key (fst (run_script v ev ss)) \<noteq> None"
proof -
  let ?ss = "\<lparr>ss_api_key = Some ''sk'', ss_provider = Some openai, ss_messages = Some []\<rparr>"
  let ?v = "\<lparr>construct = (\<lambda>_ _. Some (VendorError ''invalid key'')), call = (\<lambda>_ _. Inl IndexError)\<rparr>"
  let ?ev = "\<lparr>ev_name = ''OpenAI'', ev_key = [], ev_button = True, ev_chat = Some ''hi''\<rparr>"
  have h: "session_step ?ss (fst (run_script ?v ?ev ?ss))" "ss_provider ?ss \<noteq> None"
    "ss_api_key ?ss \<noteq> None"
    by (simp_all add: session_step.run)
  show ?thesis using configured_stays_configured [OF h] h by (simp add: Let_def)
qed

text \<open>
  C8: in every reachable session the history is a sequence of user messages, each
  followed by at most one assistant message: the conceptual alternation of the spec
  (section 3). Strict alternation is not kept: a run Streamlit stops during the model
  call leaves a user message without its reply, and the next question follows it.
\<close>

theorem reachable_user_led:
  "reachable ss \<Longrightarrow> user_led (messages_of ss)"
proof -
  assume "reachable ss"
  then have inv: "session_inv ss" by (rule reachable_inv)
  then show ?thesis
    by (auto simp: session_inv_def wf_conv_def split: option.splits)
qed

theorem reachable_user_led_witness:
  "let v = \<lparr>construct = (\<lambda>_ _. None), call = (\<lambda>_ _. Inr (ChatCompletion [PyStr ''Hi there'']))\<rparr>;
       s1 = fst (run_script v
              \<lparr>ev_name = ''OpenAI'', ev_key = ''sk-test'', ev_button = True, ev_chat = None\<rparr>
              empty_session);
       s2 = stopped_run v
              \<lparr>ev_name = ''OpenAI'', ev_key = ''sk-test'', ev_button = False, ev_chat = Some ''a''\<rparr>
              StopTurn s1;
       s3 = fst (run_script v
              \<lparr>ev_name = ''OpenAI'', ev_key = ''sk-test'', ev_button = False, ev_chat = Some ''b''\<rparr> s2)
   in reachable s3 \<and> user_led (messages_of s3) \<and>
      messages_of s3 = [user_message openai ''a'', user_message openai ''b'',
                        assistant_message (PyStr ''Hi there'')]"
proof -
  let ?v = "\<lparr>construct = (\<lambda>_ _. None), call = (\<lambda>_ _. Inr (ChatCompletion [PyStr ''Hi there'']))\<rparr>"
  let ?s1 = "fst (run_script ?v
              \<lparr>ev_name = ''OpenAI'', ev_key = ''sk-test'', ev_button = True, ev_chat = None\<rparr>
              empty_session)"
  let ?s2 = "stopped_run ?v
              \<lparr>ev_name = ''OpenAI'', ev_key = ''sk-test'', ev_button = False, ev_chat = Some ''a''\<rparr>
              StopTurn ?s1"
  let ?s3 = "fst (run_script ?v
              \<lparr>ev_name = ''OpenAI'', ev_key = ''sk-test'', ev_button = False, ev_chat = Some ''b''\<rparr> ?s2)"
  have r: "reachable ?s3"
    by (rule reachable.step [OF reachable.step [OF reachable.step [OF reachable.start
          session_step.run] session_step.stop] session_step.run])
  have s1: "?s1 = \<lparr>ss_api_key = Some ''sk-test'', ss_provider = Some openai, ss_messages = Some []\<rparr>"
    by (simp add: run_script_set_key select_provider_def py_getitem_def providers_def
        empty_session_def init_messages_def)
  have s2: "?s2 = \<lparr>ss_api_key = Some ''sk-test'', ss_provider = Some openai,
                   ss_messages = Some [user_message openai ''a'']\<rparr>"
    unfolding s1
    by (simp add: stopped_run_def sidebar_def main_block_turn_def stopped_turn_def
        select_provider_def py_getitem_def providers_def init_messages_def messages_of_def
        init_client_def make_client_def display_message_def display_content_def py_simps bindE_def)
  have s3: "messages_of ?s3 = [user_message openai ''a'', user_message openai ''b'',
                        assistant_message (PyStr ''Hi there'')]"
    unfolding s2
    by (simp add: run_script_eq script_pass_def sidebar_def main_block_def main_block_turn_def
        chat_turn_def get_model_response_def completions_request_def role_content_def
        py_first_def select_provider_def py_getitem_def
        providers_def init_messages_def messages_of_def init_client_def make_client_def
        display_message_def display_content_def py_simps bindE_def Let_def)
  show ?thesis using reachable_user_led [OF r] r s3 by (simp add: Let_def py_simps)
qed

text \<open>
  C11: a chat turn that Streamlit stops during the model call (the user acts again while
  line 137 waits for the vendor) keeps the question: the user message appended at line
  130 stays in the history, without a reply, and the selection is unchanged. This is
  the spec's guarantee that step 1's append happens before the vendor is invoked
  (section 4.4).
\<close>

theorem stopped_run_keeps_question:
  assumes "session_inv ss" "ss_provider ss = Some p" "ss_api_key ss = Some k"
    and "init_client v p k = Inr c" "select_provider (ev_name ev) = Inr q"
    and "\<not> ev_button ev" "ev_chat ev = Some u" "u \<noteq> []"
  shows "stopped_run v ev StopTurn ss =
           (init_messages ss)\<lparr>ss_messages := Some (messages_of ss @ [user_message p u])\<rparr>"
proof -
  from assms(1,2) have "list_all (stored_msg p) (messages_of ss)"
    by (auto simp: session_inv_def wf_conv_def split: option.splits)
  with assms show ?thesis
    by (simp add: stopped_run_def sidebar_no_button main_block_turn_def display_messages_wf
        stopped_turn_def Let_def)
qed

theorem stopped_run_keeps_question_witness:
  "let ss = \<lparr>ss_api_key = Some ''sk'', ss_provider = Some openai,
             ss_messages = Some [user_message openai ''a'', assistant_message (PyStr ''b'')]\<rparr>;
       v = \<lparr>construct = (\<lambda>_ _. None), call = (\<lambda>_ _. Inr (ChatCompletion [PyStr ''c'']))\<rparr>;
       ev = \<lparr>ev_name = ''OpenAI'', ev_key = ''sk'', ev_button = False, ev_chat = Some ''next''\<rparr>
   in session_inv ss \<and> init_client v openai ''sk'' = Inr (Some (Client ''OpenAI'' ''sk'')) \<and>
      select_provider (ev_name ev) = Inr openai \<and>
      messages_of (stopped_run v ev StopTurn ss) =
        [user_message openai ''a'', assistant_message (PyStr ''b''), user_message openai ''next'']"
proof -
  let ?ss = "\<lparr>ss_api_key = Some ''sk'', ss_provider = Some openai,
             ss_messages = Some [user_message openai ''a'', assistant_message (PyStr ''b'')]\<rparr>"
  let ?v = "\<lparr>construct = (\<lambda>_ _. None), call = (\<lambda>_ _. Inr (ChatCompletion [PyStr ''c'']))\<rparr>"
  let ?ev = "\<lparr>ev_name = ''OpenAI'', ev_key = ''sk'', ev_button = False, ev_chat = Some ''next''\<rparr>"
  have h: "session_inv ?ss" "ss_provider ?ss = Some openai" "ss_api_key ?ss = Some ''sk''"
    "init_client ?v openai ''sk'' = Inr (Some (Client ''OpenAI'' ''sk''))"
    "select_provider (ev_name ?ev) = Inr openai" "\<not> ev_button ?ev" "ev_chat ?ev = Some ''next''"
    "''next'' \<noteq> []"
    by (simp_all add: session_inv_def messages_of_def registered_iff wf_conv_def init_client_def
        make_client_def select_provider_def py_getitem_def providers_def py_simps)
  show ?thesis using stopped_run_keeps_question [OF h] h by (simp add: Let_def messages_of_def)
qed

end
