(* ===== verification/Spec2Isabelle.thy ===== *)
theory Spec2Isabelle
  imports Widgets Session_Props
begin

text \<open>
  \<^bold>\<open>MultiLLMChatbot: a verified model of \<open>src/main.py\<close>.\<close>

  The repository is one Streamlit script, \<open>src/main.py\<close>, which lets a user pick one of
  five LLM providers, enter an API key and chat. Streamlit runs the whole script again on
  every interaction; what survives between runs is \<open>st.session_state\<close> (keys
  \<open>api_key\<close>, \<open>provider\<close>, \<open>messages\<close>). The script has four logical parts, and the
  development has one theory for each, in the order the script calls them, with a
  prelude below them and the Streamlit runtime's rerun loop and sessions above:

  \<^item> \<^bold>\<open>Prelude\<close>: the Python runtime the model is written in, not code of the
    repository: string-or-None values and truthiness (\<open>pyval\<close>, \<open>truthy\<close>), the
    exceptions the script meets and their \<open>str()\<close> (\<open>exc\<close>, \<open>exc_str\<close>), exceptions as
    the left side of \<open>'a result = exc + 'a\<close> with \<open>bindE\<close>, and the fallible primitives
    \<open>d[k]\<close>, \<open>xs[0]\<close>, \<open>xs[-1]\<close> and a raising list comprehension (\<open>py_map\<close>). Its
    lemmas are collected in \<open>py_simps\<close>; \<open>model_defs\<close> collects the definitions the
    proofs unfold.
  \<^item> \<^bold>\<open>Registry\<close> (lines 28--37): the \<open>providers\<close> dictionary as an association
    list in source order, the select box options \<open>provider_names\<close>, the lookup
    \<open>select_provider\<close> (KeyError on an unknown name) and \<open>registered\<close>.
  \<^item> \<^bold>\<open>Messages\<close> (the conversation store, lines 58--59 and 122--149): a message
    dictionary is the record \<open>msg\<close> whose optional fields are the keys it may lack;
    \<open>user_message\<close> builds the provider-dependent user message (\<open>parts\<close> for Gemini,
    \<open>content\<close> otherwise), \<open>assistant_message\<close> the reply. The spec's canonical
    conversation is a list of \<open>turn\<close>s and \<open>abs_msg\<close> reads a message as one;
    \<open>wf_msg p\<close> is the shape of a message with text, \<open>stored_msg p\<close> adds the reply
    whose content is \<open>None\<close>; \<open>alternating\<close> is a sequence of user/assistant pairs and
    \<open>user_led\<close> a sequence of user messages each followed by at most one reply, which
    with \<open>stored_msg\<close> is the shape the session keeps.
  \<^item> \<^bold>\<open>Adapter\<close> (lines 62--106): client construction \<open>init_client\<close> and
    \<open>get_model_response\<close> with its four branches, each split into a request builder
    (\<open>gemini_request\<close>, \<open>completions_request\<close>, \<open>anthropic_request\<close>,
    \<open>cohere_request\<close>) and a response accessor (\<open>response_text\<close>,
    \<open>first_choice_content\<close>, \<open>first_block_text\<close>), the catch-all \<open>error_reply\<close>, and
    the fall-through \<open>None\<close>. The vendor libraries are the parameter \<open>vendor\<close>: what a
    constructor raises and what a call returns or raises, arbitrary in every theorem.
    The spec's adapter (section 4.3) is \<open>encode\<close>/\<open>decode\<close>/\<open>spec_reply\<close> on turns.
  \<^item> \<^bold>\<open>Session\<close> (the controller, the whole script): \<open>session\<close> is
    \<open>st.session_state\<close>, an \<open>event\<close> the widget values of one run; \<open>sidebar\<close> (lines
    36--53), \<open>init_messages\<close> (57--59), \<open>display_messages\<close> (108--119),
    \<open>chat_turn\<close> (121--149) and \<open>main_block_turn\<close> (92--155, with its \<open>try\<close>, over
    the chat turn it runs; \<open>main_block\<close> runs \<open>chat_turn\<close>) compose into
    \<open>script_pass\<close>, one run, and \<open>run_script\<close> adds the second pass after
    \<open>st.rerun()\<close>; \<open>page\<close> puts the static top every pass renders first
    (\<open>page_setup\<close>: \<open>st.set_page_config\<close>, title, caption, sidebar header, lines
    12--24) before the run's output. A run the user interrupts by acting again is
    stopped by Streamlit at its next \<open>st\<close> call, with an exception the \<open>except
    Exception\<close> of line 152 does not catch: \<open>stopped_run\<close> is the state it leaves at each
    \<open>stop_point\<close> (before the sidebar changes anything, after its assignments, after the
    history is initialised, inside a chat turn after line 130, where \<open>stopped_turn\<close>
    has appended the user message and no reply). \<open>vendor_step v\<close> is one run, complete
    or stopped, while the vendor libraries behave as \<open>v\<close>; \<open>session_step\<close> allows any
    vendor behaviour; \<open>reachable\<close> are the states of a fresh session. The properties
    of the controller are the theory \<^bold>\<open>Session_Props\<close>.
  \<^item> \<^bold>\<open>Runtime\<close> (the Streamlit runtime around the script, line 53): the rerun
    loop \<open>rerun_loop\<close> the runtime runs after \<open>st.rerun()\<close>, as a
    \<open>partial_function (option)\<close> (\<open>None\<close>: it never settles), and a session as a
    sequence of complete interactions \<open>run_events\<close>, each a run against its own vendor
    behaviour, with the user actions \<open>set_key_event\<close> and \<open>ask_event\<close>.
  \<^item> \<^bold>\<open>Widgets\<close> (the widgets of lines 36--41 and 122 as the runtime keeps them):
    \<open>widgets\<close> holds the select box and text input values across runs
    (\<open>initial_widgets\<close>: the first option, an empty key), a user \<open>action\<close> (choose an
    option, type a key, click, submit a prompt) changes them (\<open>action_widgets\<close>; a new
    option gives the password input a new label, hence a new, empty widget) and
    triggers one run whose event \<open>action_event\<close> reads them, the button and the
    prompt being set only in the run their action triggers; \<open>interact\<close> runs a
    sequence of actions.
  \<^item> \<^bold>\<open>Spec2Isabelle\<close> (this theory): the spec's session controller (sections 3
    and 4.4) as the abstract machine \<open>spec_step T\<close> on \<open>ctl\<close> (selection and canonical
    conversation), over a transport \<open>T\<close>: stutter, configure, ask (the reply is the
    spec's adapter applied to \<open>T\<close>), and a user turn whose reply is omitted (section 3);
    the abstraction \<open>abs_session\<close>; the transport \<open>vendor_transport v\<close> the script's
    client construction gives a selection; and the refinement of the script.

  What the lemmas show. Registry: every offered name resolves to a registered provider.
  Adapter: each branch's request for a well-formed history (N role/content pairs in
  order; Cohere's history/message split; Gemini's last message only; Anthropic's
  1024-token budget), \<open>get_model_response\<close> returns \<open>None\<close> exactly for an unregistered
  provider or an OpenAI/Groq completion without content and a string otherwise, and it
  refines the spec's adapter for vendors that always answer with content
  (\<open>get_model_response_refines\<close>), while a completion without content is where code and
  spec part: the code returns \<open>None\<close>, the spec a DecodeError text
  (\<open>none_content_diverges\<close>). Session: one chat turn appends exactly the user and the
  assistant message; a raising vendor or an undecodable response becomes the error text;
  switching provider clears the history while a new key for the same provider keeps it;
  the history is otherwise append-only, also across stopped runs; an empty key or a
  failing client changes nothing; a configured session stays configured; runs without a
  click keep the selection; the invariant \<open>session_inv\<close> holds in every reachable
  state, so every stored message has its provider's shape and the history is user-led
  (\<open>reachable_user_led\<close>) but not strictly alternating: a chat turn stopped during the
  model call keeps its question without a reply (\<open>stopped_run_keeps_question\<close>); the
  rendered transcript is the canonical conversation without empty turns, and a message
  whose display raises stops the display loop there. Here: while the vendor behaves
  as \<open>v\<close> with content in every completion, every state a fresh session reaches is,
  through \<open>abs_session\<close>, reachable by the spec's controller over
  \<open>vendor_transport v\<close>, and every step of the script is a step of it whose reply is
  the spec's adapter on that same transport (\<open>vendor_session_refines_spec\<close>, by the
  one-step simulation \<open>vendor_step_simulates\<close>). Runtime: the rerun loop settles after
  at most two passes with the result of \<open>run_script\<close> (\<open>rerun_loop_settles\<close>); a
  sequence of n asks appends 2n alternating messages, and any n interactions add at most
  2n messages (\<open>history_length_bound\<close>); from every reachable state, setting a key and
  asking gets a reply (\<open>reachable_can_chat\<close>). Widgets: a user who never touches the
  select box talks to Gemini, the registry's first entry (\<open>default_provider_chat\<close>);
  after choosing another provider, a click without a new key is rejected, so a key is
  never set for a provider it was not typed for (\<open>switch_needs_new_key\<close>).

  Bounds and fuel: the only loop that could run for ever is the runtime's rerun loop;
  it is a \<open>partial_function (option)\<close>, and \<open>rerun_loop_settles\<close> proves it returns
  \<open>Some\<close>, because the rerun pass sees the button released. The script itself has no
  unbounded loop; its only loops are over the message
  list (the display loop and the comprehensions), modelled by structural recursion
  (\<open>display_messages\<close>, \<open>py_map\<close>), so no fuel is needed and every definition is
  total and executable. Python integers do not occur; strings are \<open>char list\<close>, byte
  strings, so the robot emoji of the title is its UTF-8 encoding.

  Not modelled: the imports (lines 1--9); the spinner of line 136, which is shown only
  while the vendor call runs and leaves nothing on the page; the page a stopped run
  leaves, which the next run replaces (only its state is modelled); the Streamlit runtime beyond
  what the script relies on (session state, widget values, reruns: modelled), such as
  its web server and browser rendering; the vendor libraries beyond the \<open>vendor\<close> interface (a response
  keeps only the fields the script reads, with their Python types: \<open>Optional[str]\<close>
  for a completion choice's content, \<open>str\<close> for the others);
  \<open>st.markdown\<close>'s rendering of a reply (a \<open>ui\<close> element carries the value).
\<close>

text \<open>
  The spec's session controller (section 4.4), over the vendor transport \<open>T\<close>: \<open>T p k\<close>
  is the opaque transport of the selection \<open>(p, k)\<close>. Its state is the selection and
  the canonical conversation. A step stutters, configures (registered provider,
  non-empty key; the conversation is cleared when a different provider was selected),
  asks (the user turn and the reply the spec's adapter computes through \<open>T p k\<close> are
  appended), or appends a user turn whose assistant turn is omitted (section 3: the
  store does not enforce alternation, a user turn may follow a user turn).
\<close>

record ctl =
  ctl_sel :: "(string \<times> string) option"
  ctl_conv :: "turn list"

type_synonym transport = "string \<Rightarrow> string \<Rightarrow> request \<Rightarrow> response result"

inductive spec_step :: "transport \<Rightarrow> ctl \<Rightarrow> ctl \<Rightarrow> bool" for T :: transport where
  stutter: "spec_step T a a"
| configure: "registered p \<Longrightarrow> k \<noteq> [] \<Longrightarrow>
    spec_step T a \<lparr>ctl_sel = Some (p, k),
                   ctl_conv = (case ctl_sel a of
                                 Some (q, _) \<Rightarrow> if q = p then ctl_conv a else []
                               | None \<Rightarrow> ctl_conv a)\<rparr>"
| ask: "ctl_sel a = Some (p, k) \<Longrightarrow> u \<noteq> [] \<Longrightarrow>
    spec_reply (T p k) p (ctl_conv a @ [Turn USER u]) = PyStr r \<Longrightarrow>
    spec_step T a (a\<lparr>ctl_conv := ctl_conv a @ [Turn USER u, Turn ASSISTANT r]\<rparr>)"
| user_turn: "ctl_sel a = Some (p, k) \<Longrightarrow> u \<noteq> [] \<Longrightarrow>
    spec_step T a (a\<lparr>ctl_conv := ctl_conv a @ [Turn USER u]\<rparr>)"

inductive spec_reachable :: "transport \<Rightarrow> ctl \<Rightarrow> bool" for T :: transport where
  init: "spec_reachable T \<lparr>ctl_sel = None, ctl_conv = []\<rparr>"
| step: "spec_reachable T a \<Longrightarrow> spec_step T a b \<Longrightarrow> spec_reachable T b"

text \<open>
  The abstraction of a script state, and the transport a vendor behaviour gives a
  selection: the call of the client that lines 95--106 construct for it.
\<close>

definition abs_session :: "session \<Rightarrow> ctl" where
  "abs_session ss =
     \<lparr>ctl_sel = (case (ss_provider ss, ss_api_key ss) of (Some p, Some k) \<Rightarrow> Some (p, k) | _ \<Rightarrow> None),
      ctl_conv = map abs_msg (messages_of ss)\<rparr>"

definition vendor_transport :: "vendor \<Rightarrow> transport" where
  "vendor_transport v p k req =
     (case init_client v p k of
        Inl e \<Rightarrow> Inl e
      | Inr None \<Rightarrow> Inl (NameError ''client'')
      | Inr (Some c) \<Rightarrow> call v c req)"

text \<open>
  A vendor whose completions always carry content: the replies where code and spec agree
  (\<open>none_content_diverges\<close> is the one place they part).
\<close>

definition content_vendor :: "vendor \<Rightarrow> bool" where
  "content_vendor v \<longleftrightarrow> (\<forall>c req r. call v c req = Inr r \<longrightarrow> \<not> none_content r)"

text \<open>The states a fresh session reaches while the vendor libraries behave as \<open>v\<close>.\<close>

inductive vendor_reachable :: "vendor \<Rightarrow> session \<Rightarrow> bool" for v :: vendor where
  start: "vendor_reachable v empty_session"
| step: "vendor_reachable v ss \<Longrightarrow> vendor_step v ss ss' \<Longrightarrow> vendor_reachable v ss'"

text \<open>
  The session invariant with every stored message carrying text: what a session keeps
  against a vendor whose replies have content.
\<close>

definition strict_inv :: "session \<Rightarrow> bool" where
  "strict_inv ss \<longleftrightarrow>
     session_inv ss \<and>
     (case ss_provider ss of None \<Rightarrow> True | Some p \<Rightarrow> list_all (wf_msg p) (messages_of ss))"

section \<open>The refinement\<close>

lemma abs_init_messages [simp]: "abs_session (init_messages ss) = abs_session ss"
  by (simp add: abs_session_def)

lemma strict_inv_init_messages [simp]: "strict_inv (init_messages ss) = strict_inv ss"
  by (simp add: strict_inv_def split: option.splits)

lemma spec_reply_PyStr: "encode p ts \<noteq> None \<Longrightarrow> \<exists>s. spec_reply f p ts = PyStr s"
  by (auto simp: spec_reply_def bindE_def split: option.splits sum.splits dest: decode_PyStr)

text \<open>
  The reply of one chat turn against a content vendor is text, and it is the spec's
  adapter's reply through the selection's transport.
\<close>

lemma content_reply:
  assumes cv: "content_vendor v" and reg: "registered p" and wf: "list_all (wf_msg p) hist"
    and cl: "init_client v p k = Inr (Some c)"
  shows "\<exists>r. get_model_response v c p (hist @ [user_message p u]) (hist @ [user_message p u]) = PyStr r \<and>
             spec_reply (vendor_transport v p k) p (map abs_msg hist @ [Turn USER u]) = PyStr r"
proof -
  let ?ms = "hist @ [user_message p u]"
  have wf': "list_all (wf_msg p) ?ms" using wf by simp
  have eq: "get_model_response v c p ?ms ?ms = spec_reply (call v c) p (map abs_msg ?ms)"
    using adapter_refines [OF reg wf refl] cv by (simp add: content_vendor_def)
  have "encode p (map abs_msg ?ms) \<noteq> None"
    using adapter_request_encode [OF reg wf' refl] by blast
  then obtain s where s: "spec_reply (call v c) p (map abs_msg ?ms) = PyStr s"
    using spec_reply_PyStr by blast
  have "vendor_transport v p k = call v c"
    using cl by (simp add: vendor_transport_def fun_eq_iff)
  with eq s show ?thesis by simp
qed

text \<open>
  The sidebar is a stutter, or (when it sets a key) a configuration of the spec's
  controller; a chat turn is an ask whose reply is the transport's.
\<close>

lemma sidebar_simulates:
  assumes inv: "strict_inv ss" and sb: "sidebar ev ss = Inr (ss1, out, rerun)"
  shows "spec_step T (abs_session ss) (abs_session ss1) \<and> strict_inv ss1"
proof (cases rerun)
  case False
  with sb have "ss1 = ss" by (simp add: sidebar_no_rerun)
  with inv show ?thesis by (simp add: spec_step.stutter)
next
  case True
  from sb True have "sidebar ev ss = Inr (ss1, out, True)" by simp
  then obtain q where q: "select_provider (ev_name ev) = Inr q" "ev_key ev \<noteq> []"
    and ss1: "ss1 = (if ss_provider ss \<noteq> None \<and> ss_provider ss \<noteq> Some q then empty_session else ss)
                      \<lparr>ss_api_key := Some (ev_key ev), ss_provider := Some q\<rparr>"
    using sidebar_rerun by blast
  from q(1) have reg: "registered q" by (rule select_provider_Inr_registered)
  have none: "ss_provider ss = None \<Longrightarrow> messages_of ss = [] \<and> ss_api_key ss = None"
    and some: "ss_provider ss \<noteq> None \<Longrightarrow> ss_api_key ss \<noteq> None"
    using inv by (auto simp: strict_inv_def session_inv_def split: option.splits)
  then have "abs_session ss1 =
      \<lparr>ctl_sel = Some (q, ev_key ev),
       ctl_conv = (case ctl_sel (abs_session ss) of
                     Some (q', _) \<Rightarrow> if q' = q then ctl_conv (abs_session ss) else []
                   | None \<Rightarrow> ctl_conv (abs_session ss))\<rparr>"
    by (auto simp: ss1 abs_session_def empty_session_def messages_of_def split: option.splits)
  moreover have "session_inv ss1" using inv sb by (auto simp: strict_inv_def intro: sidebar_inv)
  moreover have "list_all (wf_msg q) (messages_of ss1)"
    using inv none by (auto simp: ss1 strict_inv_def empty_session_def messages_of_def)
  ultimately show ?thesis
    using spec_step.configure [OF reg q(2)] by (simp add: strict_inv_def ss1)
qed

lemma main_block_simulates:
  assumes inv: "strict_inv ss" and cv: "content_vendor v"
  shows "spec_step (vendor_transport v) (abs_session ss) (abs_session (fst (main_block v ev ss))) \<and>
         strict_inv (fst (main_block v ev ss))"
proof -
  from inv have sinv: "session_inv ss" by (simp add: strict_inv_def)
  then show ?thesis
  proof (cases rule: main_block_cases [of ss v ev])
    case 1
    with inv show ?thesis by (simp add: spec_step.stutter)
  next
    case (2 p k c u)
    from inv 2(1) have wf: "list_all (wf_msg p) (messages_of ss)" by (simp add: strict_inv_def)
    from content_reply [OF cv 2(3) wf 2(4), of u] obtain r where
      r: "get_model_response v c p (messages_of ss @ [user_message p u])
            (messages_of ss @ [user_message p u]) = PyStr r"
      and sr: "spec_reply (vendor_transport v p k) p (ctl_conv (abs_session ss) @ [Turn USER u]) = PyStr r"
      by (auto simp: abs_session_def)
    have sel: "ctl_sel (abs_session ss) = Some (p, k)"
      using 2(1,2) by (simp add: abs_session_def)
    have "session_inv (fst (main_block v ev ss))" using sinv by (rule main_block_inv)
    with spec_step.ask [of "abs_session ss" p k u "vendor_transport v" r, OF sel 2(5) sr] 2(1,6) wf r
    show ?thesis
      by (simp add: abs_session_def messages_of_def strict_inv_def)
  qed
qed

lemma vendor_step_simulates:
  assumes cv: "content_vendor v" and inv: "strict_inv ss" and step: "vendor_step v ss ss'"
  shows "spec_step (vendor_transport v) (abs_session ss) (abs_session ss') \<and> strict_inv ss'"
  using step
proof (cases rule: vendor_step.cases)
  case (run ev)
  show ?thesis
  proof (cases rule: run_script_cases [of ev v ss])
    case (key_error e)
    with inv show ?thesis by (simp add: run spec_step.stutter)
  next
    case (set_key q)
    from set_key(1-3) have "sidebar ev ss =
        Inr ((if ss_provider ss \<noteq> None \<and> ss_provider ss \<noteq> Some q then empty_session else ss)
               \<lparr>ss_api_key := Some (ev_key ev), ss_provider := Some q\<rparr>,
             [UiSuccess (ev_name ev @ '' API key set successfully!'')], True)"
      by (rule sidebar_set_key)
    from sidebar_simulates [OF inv this] set_key(4) show ?thesis by (simp add: run)
  next
    case main
    with main_block_simulates [of "init_messages ss" v ev] inv cv show ?thesis by (simp add: run)
  qed
next
  case (stop ev at)
  show ?thesis
  proof (cases rule: stopped_run_cases [of v ev at ss])
    case same
    with inv show ?thesis by (simp add: stop spec_step.stutter)
  next
    case (sidebar ss1 out rerun)
    with sidebar_simulates [OF inv sidebar(1)] show ?thesis by (auto simp: stop)
  next
    case (turn out p u)
    then obtain k where k: "ss_api_key ss = Some k" by blast
    with turn(2) have sel: "ctl_sel (abs_session ss) = Some (p, k)" by (simp add: abs_session_def)
    have "session_inv (stopped_run v ev at ss)"
      using inv by (simp add: strict_inv_def stopped_run_inv)
    with spec_step.user_turn [OF sel turn(4), of "vendor_transport v"] inv turn(2,5) show ?thesis
      by (simp add: stop abs_session_def messages_of_def strict_inv_def)
  qed
qed

lemma vendor_reachable_refines:
  "vendor_reachable v ss \<Longrightarrow> content_vendor v \<Longrightarrow>
   strict_inv ss \<and> spec_reachable (vendor_transport v) (abs_session ss)"
proof (induction rule: vendor_reachable.induct)
  case start
  have "abs_session empty_session = \<lparr>ctl_sel = None, ctl_conv = []\<rparr>"
    by (simp add: abs_session_def empty_session_def messages_of_def)
  then show ?case
    by (simp add: spec_reachable.init strict_inv_def) (simp add: empty_session_def)
next
  case (step ss ss')
  with vendor_step_simulates [of v ss ss'] show ?case by (blast intro: spec_reachable.step)
qed

text \<open>
  C10: refinement of the session controller. While the vendor libraries behave as \<open>v\<close>
  and every completion carries content, every state a fresh session reaches (through
  complete runs and runs Streamlit stops) is, read through \<open>abs_session\<close>, a state the
  spec's controller reaches with the transport \<open>vendor_transport v\<close>, and every further
  step of the script is a step of the spec's controller: a stutter, a configuration, an
  ask whose reply is the spec's adapter applied to that same transport, or a user turn
  whose reply was cut off.
\<close>

theorem vendor_session_refines_spec:
  assumes "content_vendor v" and "vendor_reachable v ss"
  shows "spec_reachable (vendor_transport v) (abs_session ss) \<and>
         (\<forall>ss'. vendor_step v ss ss' \<longrightarrow>
            spec_step (vendor_transport v) (abs_session ss) (abs_session ss'))"
proof -
  from vendor_reachable_refines [OF assms(2,1)]
  have "strict_inv ss" and "spec_reachable (vendor_transport v) (abs_session ss)" by simp_all
  then show ?thesis using vendor_step_simulates [OF assms(1)] by blast
qed

theorem vendor_session_refines_spec_witness:
  "let v = \<lparr>construct = (\<lambda>_ _. None), call = (\<lambda>_ _. Inr (ChatCompletion [PyStr ''Hi there'']))\<rparr>;
       s1 = fst (run_script v
              \<lparr>ev_name = ''OpenAI'', ev_key = ''sk-test'', ev_button = True, ev_chat = None\<rparr>
              empty_session);
       s2 = stopped_run v
              \<lparr>ev_name = ''OpenAI'', ev_key = ''sk-test'', ev_button = False, ev_chat = Some ''Hello''\<rparr>
              StopTurn s1
   in content_vendor v \<and> vendor_reachable v s2 \<and>
      spec_reachable (vendor_transport v) (abs_session s2) \<and>
      (\<forall>ss'. vendor_step v s2 ss' \<longrightarrow>
         spec_step (vendor_transport v) (abs_session s2) (abs_session ss'))"
proof -
  let ?v = "\<lparr>construct = (\<lambda>_ _. None), call = (\<lambda>_ _. Inr (ChatCompletion [PyStr ''Hi there'']))\<rparr>"
  let ?s1 = "fst (run_script ?v
              \<lparr>ev_name = ''OpenAI'', ev_key = ''sk-test'', ev_button = True, ev_chat = None\<rparr>
              empty_session)"
  let ?s2 = "stopped_run ?v
              \<lparr>ev_name = ''OpenAI'', ev_key = ''sk-test'', ev_button = False, ev_chat = Some ''Hello''\<rparr>
              StopTurn ?s1"
  have cv: "content_vendor ?v" by (simp add: content_vendor_def)
  have r: "vendor_reachable ?v ?s2"
    by (rule vendor_reachable.step [OF vendor_reachable.step [OF vendor_reachable.start
          vendor_step.run] vendor_step.stop])
  show ?thesis using vendor_session_refines_spec [OF cv r] cv r by (simp add: Let_def)
qed

end
